theory Spec2Isabelle
  imports Main "HOL-Library.Sublist"
begin

section \<open>Strings\<close>

text \<open>
  JavaScript strings are modelled as \<open>string\<close>, restricted to ASCII. The schema options
  \<open>trim: true\<close> and \<open>lowercase: true\<close> are \<open>String.prototype.trim\<close> and
  \<open>toLowerCase\<close>; \<open>error.message.includes(t)\<close> is the substring test.
\<close>

definition isWhiteSpace :: "char \<Rightarrow> bool" where
  "isWhiteSpace c =
     (c = CHR '' '' \<or> c = CHR 0x09 \<or> c = CHR 0x0A \<or> c = CHR 0x0B \<or> c = CHR 0x0C \<or> c = CHR 0x0D)"

definition trim :: "string \<Rightarrow> string" where
  "trim s = rev (dropWhile isWhiteSpace (rev (dropWhile isWhiteSpace s)))"

definition lowerChar :: "char \<Rightarrow> char" where
  "lowerChar c =
     (let n = (of_char c :: nat) in if 65 \<le> n \<and> n \<le> 90 then char_of (n + 32) else c)"

definition toLowerCase :: "string \<Rightarrow> string" where
  "toLowerCase s = map lowerChar s"

definition str_includes :: "string \<Rightarrow> string \<Rightarrow> bool" where
  "str_includes s t = sublist t s"

text \<open>\<open>s.replace(pat, rep)\<close> with a string pattern: the first occurrence only.\<close>

fun replace :: "string \<Rightarrow> string \<Rightarrow> string \<Rightarrow> string" where
  "replace pat rep [] = (if pat = [] then rep else [])"
| "replace pat rep (c # cs) =
     (if prefix pat (c # cs) then rep @ drop (length pat) (c # cs)
      else c # replace pat rep cs)"

section \<open>Data model\<close>

type_synonym objectId = nat

text \<open>Dates are milliseconds since the epoch, the unit of \<open>Date.now()\<close>.\<close>

type_synonym date = int

text \<open>The \<open>userSchema\<close> of models/User.js, with the \<open>timestamps\<close> fields.\<close>

record user =
  oid :: objectId
  firstName :: string
  lastName :: string
  email :: string
  password :: string
  phoneNumber :: string
  address :: string
  postcode :: string
  resetPasswordToken :: "string option"
  resetPasswordExpires :: "date option"
  createdAt :: date
  updatedAt :: date

text \<open>The \<open>serviceProviderSchema\<close> of models/ServiceProvider.js: the same paths and two more.\<close>

record serviceProvider = user +
  expertise :: "string list"
  businessBio :: string

definition EXPERTISE_CATEGORIES :: "string list" where
  "EXPERTISE_CATEGORIES =
     [''Plumbing'', ''Electrical'', ''Carpentry'', ''Roofing'', ''Painting & Decorating'',
      ''Flooring & Tiling'', ''Appliance Repair'', ''Handyman Services'',
      ''Locksmith & Security'', ''HVAC & Heating'', ''Gardening & Landscaping'',
      ''Cleaning Services'']"

text \<open>The two collections, each in insertion order (the order \<open>findOne\<close> scans).\<close>

record db =
  users :: "user list"
  serviceProviders :: "serviceProvider list"

text \<open>A resolved account: a document of either collection.\<close>

datatype account = Regular user | Provider serviceProvider

text \<open>A JavaScript \<open>Error\<close>: its \<open>message\<close> and its \<open>code\<close> (undefined is \<open>None\<close>).\<close>

datatype error = Error (message: string) (code: "nat option")

text \<open>
  The libraries the code calls, as parameters: \<open>bcrypt.hash(plain, salt)\<close> and
  \<open>bcrypt.compare(plain, digest)\<close>; the \<open>match\<close> regular expression of the email path;
  \<open>jwt.sign\<close> with the process secret and lifetime (given the id and the time of issue);
  \<open>jwt.verify\<close> (given the token and the time), which returns the encoded id or throws
  an error of the returned \<open>name\<close>.
\<close>

record ext =
  bcrypt_hash :: "string \<Rightarrow> string \<Rightarrow> string"
  bcrypt_compare :: "string \<Rightarrow> string \<Rightarrow> bool"
  email_regex :: "string \<Rightarrow> bool"
  jwt_sign :: "objectId \<Rightarrow> date \<Rightarrow> string"
  jwt_verify :: "string \<Rightarrow> date \<Rightarrow> string + objectId"

text \<open>
  What one call draws from its environment: the clock, the \<open>_id\<close> that
  \<open>new Model(...)\<close> generates, the salt of \<open>bcrypt.genSalt(10)\<close>, the hex string of
  \<open>crypto.randomBytes(32)\<close>, and whether \<open>transporter.sendMail\<close> resolves.
\<close>

record env =
  now :: date
  newObjectId :: objectId
  genSalt :: string
  randomBytes :: string
  sendMail :: bool

section \<open>Collections\<close>

text \<open>
  \<open>Model.findOne({email})\<close>: the query value goes through the path's setters
  (\<open>lowercase\<close>, \<open>trim\<close>) as a stored value does; the first match is returned.
\<close>

definition emailSetter :: "string \<Rightarrow> string" where
  "emailSetter e = toLowerCase (trim e)"

definition findOneByEmail :: "('a user_scheme) list \<Rightarrow> string \<Rightarrow> 'a user_scheme option" where
  "findOneByEmail coll e = find (\<lambda>u. email u = emailSetter e) coll"

definition findById :: "('a user_scheme) list \<Rightarrow> objectId \<Rightarrow> 'a user_scheme option" where
  "findById coll i = find (\<lambda>u. oid u = i) coll"

text \<open>
  \<open>Model.findOne({resetPasswordToken: token, resetPasswordExpires: {$gt: t}})\<close>.
\<close>

definition findOneByResetToken ::
  "('a user_scheme) list \<Rightarrow> string \<Rightarrow> date \<Rightarrow> 'a user_scheme option" where
  "findOneByResetToken coll token t =
     find (\<lambda>u. resetPasswordToken u = Some token \<and>
               (case resetPasswordExpires u of None \<Rightarrow> False | Some x \<Rightarrow> x > t)) coll"

text \<open>An update of one document: the first match is changed, as \<open>updateOne\<close> does.\<close>

fun updateOne :: "('a \<Rightarrow> bool) \<Rightarrow> ('a \<Rightarrow> 'a) \<Rightarrow> 'a list \<Rightarrow> 'a list" where
  "updateOne P f [] = []"
| "updateOne P f (x # xs) = (if P x then f x # xs else x # updateOne P f xs)"

text \<open>
  An insert: the unique indexes on \<open>_id\<close> and on \<open>email\<close> (\<open>unique: true\<close>) reject a
  duplicate with the server's error code 11000.
\<close>

definition insertOne :: "'a user_scheme \<Rightarrow> ('a user_scheme) list \<Rightarrow> error + ('a user_scheme) list" where
  "insertOne u coll =
     (if list_ex (\<lambda>v. oid v = oid u \<or> email v = email u) coll
      then Inl (Error ''E11000 duplicate key error collection'' (Some 11000))
      else Inr (coll @ [u]))"

section \<open>Schema validation\<close>

text \<open>
  Each path reports the message of its first failing validator. A missing value and the
  empty string both fail \<open>required\<close>.
\<close>

definition checkPath :: "string \<Rightarrow> (bool \<times> string) list \<Rightarrow> (string \<times> string) list" where
  "checkPath path validators =
     (case find (\<lambda>(ok, msg). \<not> ok) validators of
        None \<Rightarrow> []
      | Some (ok, msg) \<Rightarrow> [(path, msg)])"

definition v_firstName :: "string \<Rightarrow> (string \<times> string) list" where
  "v_firstName v = checkPath ''firstName''
     [(v \<noteq> [], ''First name is required''),
      (length v \<le> 50, ''First name cannot exceed 50 characters'')]"

definition v_lastName :: "string \<Rightarrow> (string \<times> string) list" where
  "v_lastName v = checkPath ''lastName''
     [(v \<noteq> [], ''Last name is required''),
      (length v \<le> 50, ''Last name cannot exceed 50 characters'')]"

definition v_email :: "ext \<Rightarrow> string \<Rightarrow> (string \<times> string) list" where
  "v_email X v = checkPath ''email''
     [(v \<noteq> [], ''Email is required''),
      (email_regex X v, ''Please enter a valid email'')]"

definition v_password :: "string \<Rightarrow> (string \<times> string) list" where
  "v_password v = checkPath ''password''
     [(v \<noteq> [], ''Password is required''),
      (6 \<le> length v, ''Password must be at least 6 characters long'')]"

definition v_phoneNumber :: "string \<Rightarrow> (string \<times> string) list" where
  "v_phoneNumber v = checkPath ''phoneNumber'' [(v \<noteq> [], ''Phone number is required'')]"

definition v_address :: "string \<Rightarrow> (string \<times> string) list" where
  "v_address v = checkPath ''address'' [(v \<noteq> [], ''Address is required'')]"

definition v_postcode :: "string \<Rightarrow> (string \<times> string) list" where
  "v_postcode v = checkPath ''postcode'' [(v \<noteq> [], ''Postcode is required'')]"

definition v_expertise :: "string list \<Rightarrow> (string \<times> string) list" where
  "v_expertise v = checkPath ''expertise''
     [(v \<noteq> [], ''At least one expertise category is required''),
      (length v > 0 \<and> list_all (\<lambda>exp. exp \<in> set EXPERTISE_CATEGORIES) v,
       ''Expertise must contain valid categories from the predefined list'')]"

definition v_businessBio :: "string \<Rightarrow> (string \<times> string) list" where
  "v_businessBio v = checkPath ''businessBio''
     [(v \<noteq> [], ''Business bio is required''),
      (length v \<le> 500, ''Business bio cannot exceed 500 characters'')]"

definition validateUser :: "ext \<Rightarrow> 'a user_scheme \<Rightarrow> (string \<times> string) list" where
  "validateUser X u =
     v_firstName (firstName u) @ v_lastName (lastName u) @ v_email X (email u) @
     v_password (password u) @ v_phoneNumber (phoneNumber u) @ v_address (address u) @
     v_postcode (postcode u)"

definition validateServiceProvider :: "ext \<Rightarrow> serviceProvider \<Rightarrow> (string \<times> string) list" where
  "validateServiceProvider X p =
     validateUser X p @ v_expertise (expertise p) @ v_businessBio (businessBio p)"

text \<open>The message of a mongoose \<open>ValidationError\<close>.\<close>

fun joinMessages :: "(string \<times> string) list \<Rightarrow> string" where
  "joinMessages [] = []"
| "joinMessages [(p, m)] = p @ '': '' @ m"
| "joinMessages ((p, m) # rest) = p @ '': '' @ m @ '', '' @ joinMessages rest"

definition ValidationError :: "string \<Rightarrow> (string \<times> string) list \<Rightarrow> error" where
  "ValidationError modelName errs =
     Error (modelName @ '' validation failed: '' @ joinMessages errs) None"

section \<open>Model hooks and methods (models/User.js, models/ServiceProvider.js)\<close>

text \<open>
  \<open>schema.pre('save')\<close>: the password is hashed with a fresh salt when
  \<open>this.isModified('password')\<close>, and left as it is otherwise.
\<close>

definition preSave :: "ext \<Rightarrow> env \<Rightarrow> bool \<Rightarrow> 'a user_scheme \<Rightarrow> 'a user_scheme" where
  "preSave X E isModified_password u =
     (if \<not> isModified_password then u
      else u\<lparr>password := bcrypt_hash X (password u) (genSalt E)\<rparr>)"

definition comparePassword :: "ext \<Rightarrow> 'a user_scheme \<Rightarrow> string \<Rightarrow> bool" where
  "comparePassword X u candidatePassword = bcrypt_compare X candidatePassword (password u)"

text \<open>
  \<open>document.save()\<close>: the built-in validation runs first, then the \<open>pre('save')\<close>
  hook, then the write: an insert for a new document, an update of the stored document
  of the same \<open>_id\<close> otherwise. \<open>timestamps: true\<close> stamps \<open>updatedAt\<close>.
\<close>

definition save ::
  "ext \<Rightarrow> env \<Rightarrow> string \<Rightarrow> ('a user_scheme \<Rightarrow> (string \<times> string) list) \<Rightarrow> bool \<Rightarrow> bool \<Rightarrow>
   'a user_scheme \<Rightarrow> ('a user_scheme) list \<Rightarrow> error + ('a user_scheme \<times> ('a user_scheme) list)" where
  "save X E modelName validate isNew isModified_password u coll =
     (case validate u of
        e # es \<Rightarrow> Inl (ValidationError modelName (e # es))
      | [] \<Rightarrow>
          (let u' = (preSave X E isModified_password u)\<lparr>updatedAt := now E\<rparr>
           in if isNew
              then (case insertOne u' coll of
                      Inl err \<Rightarrow> Inl err
                    | Inr coll' \<Rightarrow> Inr (u', coll'))
              else Inr (u', updateOne (\<lambda>v. oid v = oid u) (\<lambda>v. u') coll)))"

definition User_save ::
  "ext \<Rightarrow> env \<Rightarrow> bool \<Rightarrow> bool \<Rightarrow> user \<Rightarrow> user list \<Rightarrow> error + (user \<times> user list)" where
  "User_save X E = save X E ''User'' (validateUser X)"

definition ServiceProvider_save ::
  "ext \<Rightarrow> env \<Rightarrow> bool \<Rightarrow> bool \<Rightarrow> serviceProvider \<Rightarrow> serviceProvider list \<Rightarrow>
   error + (serviceProvider \<times> serviceProvider list)" where
  "ServiceProvider_save X E = save X E ''ServiceProvider'' (validateServiceProvider X)"

subsection \<open>Serialization\<close>

text \<open>
  JSON values. An \<open>ObjectId\<close> and a \<open>Date\<close> are written as numbers here (they
  serialize to strings of the same information).
\<close>

datatype json = JNull | JStr string | JNum int | JArr "json list" | JObj "(string \<times> json) list"

definition deleteKey :: "string \<Rightarrow> (string \<times> json) list \<Rightarrow> (string \<times> json) list" where
  "deleteKey k obj = filter (\<lambda>(k', v). k' \<noteq> k) obj"

definition userObject :: "'a user_scheme \<Rightarrow> (string \<times> json) list" where
  "userObject u =
     [(''_id'', JNum (int (oid u))),
      (''firstName'', JStr (firstName u)),
      (''lastName'', JStr (lastName u)),
      (''email'', JStr (email u)),
      (''password'', JStr (password u)),
      (''phoneNumber'', JStr (phoneNumber u)),
      (''address'', JStr (address u)),
      (''postcode'', JStr (postcode u)),
      (''resetPasswordToken'', (case resetPasswordToken u of None \<Rightarrow> JNull | Some t \<Rightarrow> JStr t)),
      (''resetPasswordExpires'', (case resetPasswordExpires u of None \<Rightarrow> JNull | Some t \<Rightarrow> JNum t)),
      (''createdAt'', JNum (createdAt u)),
      (''updatedAt'', JNum (updatedAt u)),
      (''__v'', JNum 0)]"

text \<open>\<open>this.toObject()\<close> of each model.\<close>

definition User_toObject :: "user \<Rightarrow> (string \<times> json) list" where
  "User_toObject u = userObject u"

definition ServiceProvider_toObject :: "serviceProvider \<Rightarrow> (string \<times> json) list" where
  "ServiceProvider_toObject p =
     userObject p @
     [(''expertise'', JArr (map JStr (expertise p))), (''businessBio'', JStr (businessBio p))]"

text \<open>\<open>schema.methods.toJSON\<close>: \<open>toObject()\<close>, then \<open>delete user.password\<close>.\<close>

definition User_toJSON :: "user \<Rightarrow> json" where
  "User_toJSON u = JObj (deleteKey ''password'' (User_toObject u))"

definition ServiceProvider_toJSON :: "serviceProvider \<Rightarrow> json" where
  "ServiceProvider_toJSON p = JObj (deleteKey ''password'' (ServiceProvider_toObject p))"

fun account_toJSON :: "account \<Rightarrow> json" where
  "account_toJSON (Regular u) = User_toJSON u"
| "account_toJSON (Provider p) = ServiceProvider_toJSON p"

fun account_comparePassword :: "ext \<Rightarrow> account \<Rightarrow> string \<Rightarrow> bool" where
  "account_comparePassword X (Regular u) candidatePassword = comparePassword X u candidatePassword"
| "account_comparePassword X (Provider p) candidatePassword = comparePassword X p candidatePassword"

fun account_id :: "account \<Rightarrow> objectId" where
  "account_id (Regular u) = oid u"
| "account_id (Provider p) = oid p"

text \<open>
  A document read with \<open>.select('-password')\<close> has no password path; it is written as the
  plain object it holds. Its \<open>toJSON\<close> deletes the (absent) key again.
\<close>

definition select_minus_password :: "(string \<times> json) list \<Rightarrow> (string \<times> json) list" where
  "select_minus_password obj = deleteKey ''password'' obj"

definition projected_toJSON :: "(string \<times> json) list \<Rightarrow> json" where
  "projected_toJSON obj = JObj (deleteKey ''password'' obj)"

text \<open>Whether a JSON value has a field of the given name, at any depth.\<close>

fun hasField :: "string \<Rightarrow> json \<Rightarrow> bool" where
  "hasField k (JObj kvs) = list_ex (\<lambda>kv. fst kv = k \<or> hasField k (snd kv)) kvs"
| "hasField k (JArr vs) = list_ex (hasField k) vs"
| "hasField k JNull = False"
| "hasField k (JStr s) = False"
| "hasField k (JNum n) = False"

section \<open>Email service (services/emailService.js)\<close>

definition sendEmail :: "env \<Rightarrow> error + string" where
  "sendEmail E =
     (if sendMail E then Inr ''Email sent successfully''
      else Inl (Error ''Failed to send email'' None))"

text \<open>\<open>sendWelcomeEmail\<close> catches the failure and returns a message.\<close>

definition sendWelcomeEmail :: "env \<Rightarrow> 'a user_scheme \<Rightarrow> error + string" where
  "sendWelcomeEmail E u =
     (case sendEmail E of
        Inr r \<Rightarrow> Inr r
      | Inl err \<Rightarrow> Inr ''User registered successfully (email service temporarily unavailable)'')"

text \<open>\<open>sendForgotPasswordEmail\<close> catches the failure and throws a new error.\<close>

definition sendForgotPasswordEmail :: "env \<Rightarrow> 'a user_scheme \<Rightarrow> string \<Rightarrow> string \<Rightarrow> error + string" where
  "sendForgotPasswordEmail E u resetToken resetUrl =
     (case sendEmail E of
        Inr r \<Rightarrow> Inr r
      | Inl err \<Rightarrow>
          Inl (Error ''Email service unavailable. Please contact support for password reset.'' None))"

section \<open>Authentication middleware (middleware/auth.js)\<close>

text \<open>
  \<open>auth\<close> answers with a status and a message, or attaches \<open>req.user\<close>,
  \<open>req.userType\<close> and \<open>req.userId\<close> and calls \<open>next()\<close>. The users collection is read
  first; the service providers collection only when it has no document of that id.
\<close>

definition auth ::
  "ext \<Rightarrow> env \<Rightarrow> db \<Rightarrow> string option \<Rightarrow> (nat \<times> string) + (account \<times> string \<times> objectId)" where
  "auth X E s authorization =
     (case map_option (replace ''Bearer '' []) authorization of
        None \<Rightarrow> Inl (401, ''Access denied. No token provided.'')
      | Some token \<Rightarrow>
          if token = [] then Inl (401, ''Access denied. No token provided.'')
          else
            (case jwt_verify X token (now E) of
               Inl name \<Rightarrow>
                 if name = ''JsonWebTokenError'' then Inl (401, ''Invalid token.'')
                 else if name = ''TokenExpiredError'' then Inl (401, ''Token expired.'')
                 else Inl (500, ''Server error.'')
             | Inr userId \<Rightarrow>
                 (case findById (users s) userId of
                    Some user \<Rightarrow> Inr (Regular user, ''user'', userId)
                  | None \<Rightarrow>
                      (case findById (serviceProviders s) userId of
                         Some user \<Rightarrow> Inr (Provider user, ''serviceProvider'', userId)
                       | None \<Rightarrow> Inl (401, ''Invalid token. User not found.'')))))"

definition isServiceProvider :: "string \<Rightarrow> (nat \<times> string) option" where
  "isServiceProvider userType =
     (if userType \<noteq> ''serviceProvider''
      then Some (403, ''Access denied. Service provider only.'') else None)"

definition isUser :: "string \<Rightarrow> (nat \<times> string) option" where
  "isUser userType =
     (if userType \<noteq> ''user'' then Some (403, ''Access denied. User only.'') else None)"

section \<open>Authentication service (services/authService.js)\<close>

definition generateToken :: "ext \<Rightarrow> env \<Rightarrow> objectId \<Rightarrow> string" where
  "generateToken X E userId = jwt_sign X userId (now E)"

text \<open>The registration data, with the fields the service documents.\<close>

record userData =
  data_firstName :: string
  data_lastName :: string
  data_email :: string
  data_password :: string
  data_phoneNumber :: string
  data_address :: string
  data_postcode :: string

record providerData = userData +
  data_expertise :: "string list"
  data_businessBio :: string

text \<open>
  \<open>new User(userData)\<close>: a fresh \<open>_id\<close>, the setters of each path applied, the reset
  fields at their default \<open>null\<close>.
\<close>

definition newUser :: "env \<Rightarrow> 'b userData_scheme \<Rightarrow> user" where
  "newUser E d =
     \<lparr>oid = newObjectId E,
      firstName = trim (data_firstName d),
      lastName = trim (data_lastName d),
      email = emailSetter (data_email d),
      password = data_password d,
      phoneNumber = trim (data_phoneNumber d),
      address = trim (data_address d),
      postcode = trim (data_postcode d),
      resetPasswordToken = None,
      resetPasswordExpires = None,
      createdAt = now E,
      updatedAt = now E\<rparr>"

definition newServiceProvider :: "env \<Rightarrow> providerData \<Rightarrow> serviceProvider" where
  "newServiceProvider E d =
     \<lparr>oid = newObjectId E,
      firstName = trim (data_firstName d),
      lastName = trim (data_lastName d),
      email = emailSetter (data_email d),
      password = data_password d,
      phoneNumber = trim (data_phoneNumber d),
      address = trim (data_address d),
      postcode = trim (data_postcode d),
      resetPasswordToken = None,
      resetPasswordExpires = None,
      createdAt = now E,
      updatedAt = now E,
      expertise = data_expertise d,
      businessBio = trim (data_businessBio d)\<rparr>"

text \<open>
  \<open>registerUser\<close> returns the message and the new id, or throws. The inner
  \<open>try/catch\<close> around the welcome email has the same continuation on both sides; the
  outer \<open>catch\<close> rewrites an error of code 11000.
\<close>

definition registerUser ::
  "ext \<Rightarrow> env \<Rightarrow> db \<Rightarrow> userData \<Rightarrow> (error + (string \<times> objectId)) \<times> db" where
  "registerUser X E s userData =
     (case findOneByEmail (users s) (data_email userData) of
        Some existingUser \<Rightarrow> (Inl (Error ''User with this email already exists'' None), s)
      | None \<Rightarrow>
          (case User_save X E True True (newUser E userData) (users s) of
             Inl err \<Rightarrow>
               (if code err = Some 11000
                then Inl (Error ''User with this email already exists'' None)
                else Inl err, s)
           | Inr (user, coll) \<Rightarrow>
               (case sendWelcomeEmail E user of
                  Inl emailError \<Rightarrow>
                    (Inr (''User registered successfully'', oid user), s\<lparr>users := coll\<rparr>)
                | Inr sent \<Rightarrow>
                    (Inr (''User registered successfully'', oid user), s\<lparr>users := coll\<rparr>))))"

definition registerServiceProvider ::
  "ext \<Rightarrow> env \<Rightarrow> db \<Rightarrow> providerData \<Rightarrow> (error + (string \<times> objectId)) \<times> db" where
  "registerServiceProvider X E s providerData =
     (case findOneByEmail (serviceProviders s) (data_email providerData) of
        Some existingProvider \<Rightarrow>
          (Inl (Error ''Service provider with this email already exists'' None), s)
      | None \<Rightarrow>
          (case ServiceProvider_save X E True True (newServiceProvider E providerData)
                  (serviceProviders s) of
             Inl err \<Rightarrow>
               (if code err = Some 11000
                then Inl (Error ''Service provider with this email already exists'' None)
                else Inl err, s)
           | Inr (serviceProvider, coll) \<Rightarrow>
               (case sendWelcomeEmail E serviceProvider of
                  Inl emailError \<Rightarrow>
                    (Inr (''Service provider registered successfully'', oid serviceProvider),
                     s\<lparr>serviceProviders := coll\<rparr>)
                | Inr sent \<Rightarrow>
                    (Inr (''Service provider registered successfully'', oid serviceProvider),
                     s\<lparr>serviceProviders := coll\<rparr>))))"

text \<open>
  The lookup that opens both \<open>login\<close> and \<open>forgotPassword\<close>: the users collection
  first, with \<open>userType = 'user'\<close>; if it has no match, the service providers collection,
  with \<open>userType = 'serviceProvider'\<close>.
\<close>

definition findUserOrProvider :: "db \<Rightarrow> string \<Rightarrow> account option \<times> string" where
  "findUserOrProvider s e =
     (case findOneByEmail (users s) e of
        Some user \<Rightarrow> (Some (Regular user), ''user'')
      | None \<Rightarrow> (map_option Provider (findOneByEmail (serviceProviders s) e), ''serviceProvider''))"

definition login :: "ext \<Rightarrow> env \<Rightarrow> db \<Rightarrow> string \<Rightarrow> string \<Rightarrow> error + json" where
  "login X E s e pw =
     (case findUserOrProvider s e of
        (None, userType) \<Rightarrow> Inl (Error ''Invalid email or password'' None)
      | (Some user, userType) \<Rightarrow>
          if \<not> account_comparePassword X user pw
          then Inl (Error ''Invalid email or password'' None)
          else Inr (JObj [(''token'', JStr (generateToken X E (account_id user))),
                          (''userType'', JStr userType),
                          (userType, account_toJSON user)]))"

text \<open>
  \<open>forgotPassword\<close>: the token and its expiry are stored with \<open>user.save()\<close>; the
  email is sent after that, and its failure is thrown on.
\<close>

definition resetUrl :: "string \<Rightarrow> string \<Rightarrow> string" where
  "resetUrl resetToken userType =
     ''http://localhost:3000'' @ ''?reset=true&token='' @ resetToken @ ''&type='' @ userType"

definition forgotPassword :: "ext \<Rightarrow> env \<Rightarrow> db \<Rightarrow> string \<Rightarrow> (error + string) \<times> db" where
  "forgotPassword X E s e =
     (case findUserOrProvider s e of
        (None, userType) \<Rightarrow> (Inl (Error ''No account found with this email address'' None), s)
      | (Some (Regular user), userType) \<Rightarrow>
          (let resetToken = randomBytes E;
               resetTokenExpiry = now E + 60 * 60 * 1000;
               user' = user\<lparr>resetPasswordToken := Some resetToken,
                           resetPasswordExpires := Some resetTokenExpiry\<rparr>
           in case User_save X E False False user' (users s) of
                Inl err \<Rightarrow> (Inl err, s)
              | Inr (saved, coll) \<Rightarrow>
                  (case sendForgotPasswordEmail E saved resetToken (resetUrl resetToken userType) of
                     Inl err \<Rightarrow> (Inl err, s\<lparr>users := coll\<rparr>)
                   | Inr sent \<Rightarrow>
                       (Inr ''Password reset email sent successfully'', s\<lparr>users := coll\<rparr>)))
      | (Some (Provider user), userType) \<Rightarrow>
          (let resetToken = randomBytes E;
               resetTokenExpiry = now E + 60 * 60 * 1000;
               user' = user\<lparr>resetPasswordToken := Some resetToken,
                           resetPasswordExpires := Some resetTokenExpiry\<rparr>
           in case ServiceProvider_save X E False False user' (serviceProviders s) of
                Inl err \<Rightarrow> (Inl err, s)
              | Inr (saved, coll) \<Rightarrow>
                  (case sendForgotPasswordEmail E saved resetToken (resetUrl resetToken userType) of
                     Inl err \<Rightarrow> (Inl err, s\<lparr>serviceProviders := coll\<rparr>)
                   | Inr sent \<Rightarrow>
                       (Inr ''Password reset email sent successfully'',
                        s\<lparr>serviceProviders := coll\<rparr>))))"

text \<open>
  \<open>resetPassword\<close>: the model is chosen by \<open>userType\<close>. Assigning
  \<open>user.password = newPassword\<close> marks the path modified when the value differs from the
  stored one.
\<close>

definition resetPassword ::
  "ext \<Rightarrow> env \<Rightarrow> db \<Rightarrow> string \<Rightarrow> string \<Rightarrow> string \<Rightarrow> (error + string) \<times> db" where
  "resetPassword X E s token newPassword userType =
     (if userType = ''serviceProvider''
      then
        (case findOneByResetToken (serviceProviders s) token (now E) of
           None \<Rightarrow> (Inl (Error ''Invalid or expired reset token'' None), s)
         | Some user \<Rightarrow>
             (case ServiceProvider_save X E False (newPassword \<noteq> password user)
                     (user\<lparr>password := newPassword, resetPasswordToken := None,
                           resetPasswordExpires := None\<rparr>) (serviceProviders s) of
                Inl err \<Rightarrow> (Inl err, s)
              | Inr (saved, coll) \<Rightarrow>
                  (Inr ''Password reset successfully'', s\<lparr>serviceProviders := coll\<rparr>)))
      else
        (case findOneByResetToken (users s) token (now E) of
           None \<Rightarrow> (Inl (Error ''Invalid or expired reset token'' None), s)
         | Some user \<Rightarrow>
             (case User_save X E False (newPassword \<noteq> password user)
                     (user\<lparr>password := newPassword, resetPasswordToken := None,
                           resetPasswordExpires := None\<rparr>) (users s) of
                Inl err \<Rightarrow> (Inl err, s)
              | Inr (saved, coll) \<Rightarrow> (Inr ''Password reset successfully'', s\<lparr>users := coll\<rparr>))))"

section \<open>Authentication controller (controllers/authController.js)\<close>

text \<open>A response: the status and the JSON body.\<close>

type_synonym response = "nat \<times> json"

definition messageBody :: "string \<Rightarrow> json" where
  "messageBody m = JObj [(''message'', JStr m)]"

definition AuthController_registerUser :: "ext \<Rightarrow> env \<Rightarrow> db \<Rightarrow> userData \<Rightarrow> response \<times> db" where
  "AuthController_registerUser X E s body =
     (case registerUser X E s body of
        (Inr (m, userId), s') \<Rightarrow>
          ((201, JObj [(''message'', JStr m), (''userId'', JNum (int userId))]), s')
      | (Inl err, s') \<Rightarrow>
          if str_includes (message err) ''already exists''
          then ((400, messageBody (message err)), s')
          else ((500, messageBody ''Error registering user''), s'))"

definition AuthController_registerServiceProvider ::
  "ext \<Rightarrow> env \<Rightarrow> db \<Rightarrow> providerData \<Rightarrow> response \<times> db" where
  "AuthController_registerServiceProvider X E s body =
     (case registerServiceProvider X E s body of
        (Inr (m, providerId), s') \<Rightarrow>
          ((201, JObj [(''message'', JStr m), (''serviceProviderId'', JNum (int providerId))]), s')
      | (Inl err, s') \<Rightarrow>
          if str_includes (message err) ''already exists''
          then ((400, messageBody (message err)), s')
          else ((500, messageBody ''Error registering service provider''), s'))"

definition AuthController_login :: "ext \<Rightarrow> env \<Rightarrow> db \<Rightarrow> string \<Rightarrow> string \<Rightarrow> response" where
  "AuthController_login X E s e pw =
     (case login X E s e pw of
        Inr result \<Rightarrow> (200, result)
      | Inl err \<Rightarrow>
          if str_includes (message err) ''Invalid email or password''
          then (401, messageBody (message err))
          else (500, messageBody ''Error during login''))"

definition AuthController_forgotPassword :: "ext \<Rightarrow> env \<Rightarrow> db \<Rightarrow> string \<Rightarrow> response \<times> db" where
  "AuthController_forgotPassword X E s e =
     (case forgotPassword X E s e of
        (Inr m, s') \<Rightarrow> ((200, messageBody m), s')
      | (Inl err, s') \<Rightarrow>
          if str_includes (message err) ''No account found''
          then ((404, messageBody (message err)), s')
          else ((500, messageBody ''Error sending forgot password email''), s'))"

definition AuthController_resetPassword ::
  "ext \<Rightarrow> env \<Rightarrow> db \<Rightarrow> string \<Rightarrow> string \<Rightarrow> string \<Rightarrow> response \<times> db" where
  "AuthController_resetPassword X E s token newPassword userType =
     (case resetPassword X E s token newPassword userType of
        (Inr m, s') \<Rightarrow> ((200, messageBody m), s')
      | (Inl err, s') \<Rightarrow>
          if str_includes (message err) ''Invalid or expired''
          then ((400, messageBody (message err)), s')
          else ((500, messageBody ''Error resetting password''), s'))"

section \<open>User and service provider services\<close>

text \<open>
  The update data is the request body. Its documented fields are the first five (and
  \<open>expertise\<close>, \<open>businessBio\<close> for a provider); the body may carry any other path of
  the schema too, and \<open>{ $set: updateData }\<close> passes them all on. Paths outside the
  schema are dropped by mongoose and are not represented. \<open>None\<close> is an absent field.
\<close>

record updateData =
  upd_firstName :: "string option"
  upd_lastName :: "string option"
  upd_phoneNumber :: "string option"
  upd_address :: "string option"
  upd_postcode :: "string option"
  upd_email :: "string option"
  upd_password :: "string option"
  upd_resetPasswordToken :: "string option"
  upd_resetPasswordExpires :: "date option"

record providerUpdateData = updateData +
  upd_expertise :: "string list option"
  upd_businessBio :: "string option"

text \<open>\<open>runValidators: true\<close>: the validators of the paths that the update sets.\<close>

definition updateValidators :: "ext \<Rightarrow> 'b updateData_scheme \<Rightarrow> (string \<times> string) list" where
  "updateValidators X d =
     (case upd_firstName d of None \<Rightarrow> [] | Some v \<Rightarrow> v_firstName (trim v)) @
     (case upd_lastName d of None \<Rightarrow> [] | Some v \<Rightarrow> v_lastName (trim v)) @
     (case upd_email d of None \<Rightarrow> [] | Some v \<Rightarrow> v_email X (emailSetter v)) @
     (case upd_password d of None \<Rightarrow> [] | Some v \<Rightarrow> v_password v) @
     (case upd_phoneNumber d of None \<Rightarrow> [] | Some v \<Rightarrow> v_phoneNumber (trim v)) @
     (case upd_address d of None \<Rightarrow> [] | Some v \<Rightarrow> v_address (trim v)) @
     (case upd_postcode d of None \<Rightarrow> [] | Some v \<Rightarrow> v_postcode (trim v))"

definition providerUpdateValidators :: "ext \<Rightarrow> providerUpdateData \<Rightarrow> (string \<times> string) list" where
  "providerUpdateValidators X d =
     updateValidators X d @
     (case upd_expertise d of None \<Rightarrow> [] | Some v \<Rightarrow> v_expertise v) @
     (case upd_businessBio d of None \<Rightarrow> [] | Some v \<Rightarrow> v_businessBio (trim v))"

text \<open>
  \<open>$set\<close>: each path present in the update is written, through its setters; no
  \<open>save\<close> hook runs. \<open>timestamps: true\<close> stamps \<open>updatedAt\<close>.
\<close>

definition setPaths :: "'b updateData_scheme \<Rightarrow> date \<Rightarrow> 'a user_scheme \<Rightarrow> 'a user_scheme" where
  "setPaths d t u =
     u\<lparr>firstName := (case upd_firstName d of None \<Rightarrow> firstName u | Some v \<Rightarrow> trim v),
       lastName := (case upd_lastName d of None \<Rightarrow> lastName u | Some v \<Rightarrow> trim v),
       email := (case upd_email d of None \<Rightarrow> email u | Some v \<Rightarrow> emailSetter v),
       password := (case upd_password d of None \<Rightarrow> password u | Some v \<Rightarrow> v),
       phoneNumber := (case upd_phoneNumber d of None \<Rightarrow> phoneNumber u | Some v \<Rightarrow> trim v),
       address := (case upd_address d of None \<Rightarrow> address u | Some v \<Rightarrow> trim v),
       postcode := (case upd_postcode d of None \<Rightarrow> postcode u | Some v \<Rightarrow> trim v),
       resetPasswordToken :=
         (case upd_resetPasswordToken d of None \<Rightarrow> resetPasswordToken u | Some v \<Rightarrow> Some v),
       resetPasswordExpires :=
         (case upd_resetPasswordExpires d of None \<Rightarrow> resetPasswordExpires u | Some v \<Rightarrow> Some v),
       updatedAt := t\<rparr>"

definition setProviderPaths :: "providerUpdateData \<Rightarrow> date \<Rightarrow> serviceProvider \<Rightarrow> serviceProvider" where
  "setProviderPaths d t p =
     (setPaths d t p)
       \<lparr>expertise := (case upd_expertise d of None \<Rightarrow> expertise p | Some v \<Rightarrow> v),
        businessBio := (case upd_businessBio d of None \<Rightarrow> businessBio p | Some v \<Rightarrow> trim v)\<rparr>"

text \<open>
  \<open>Model.findByIdAndUpdate(id, { $set: updateData }, { new: true, runValidators: true })\<close>:
  the update validators run before the query is sent; the result is the updated
  document, or \<open>null\<close> when no document has the id. The unique index on \<open>email\<close> rejects
  an email that another document holds.
\<close>

definition findByIdAndUpdate ::
  "(string \<times> string) list \<Rightarrow> ('a user_scheme \<Rightarrow> 'a user_scheme) \<Rightarrow> string option \<Rightarrow>
   ('a user_scheme) list \<Rightarrow> objectId \<Rightarrow> error + ('a user_scheme option \<times> ('a user_scheme) list)" where
  "findByIdAndUpdate errs f newEmail coll i =
     (case errs of
        e # es \<Rightarrow> Inl (ValidationError ''Validation'' (e # es))
      | [] \<Rightarrow>
          (case findById coll i of
             None \<Rightarrow> Inr (None, coll)
           | Some u \<Rightarrow>
               if (case newEmail of
                     None \<Rightarrow> False
                   | Some e \<Rightarrow> list_ex (\<lambda>v. oid v \<noteq> i \<and> email v = emailSetter e) coll)
               then Inl (Error ''E11000 duplicate key error collection'' (Some 11000))
               else Inr (Some (f u), updateOne (\<lambda>v. oid v = i) f coll)))"

text \<open>\<open>Model.findByIdAndDelete(id)\<close>: the removed document, or \<open>null\<close>.\<close>

fun deleteOne :: "('a \<Rightarrow> bool) \<Rightarrow> 'a list \<Rightarrow> 'a list" where
  "deleteOne P [] = []"
| "deleteOne P (x # xs) = (if P x then xs else x # deleteOne P xs)"

definition findByIdAndDelete ::
  "('a user_scheme) list \<Rightarrow> objectId \<Rightarrow> 'a user_scheme option \<times> ('a user_scheme) list" where
  "findByIdAndDelete coll i = (findById coll i, deleteOne (\<lambda>v. oid v = i) coll)"

subsection \<open>UserService (services/userService.js)\<close>

definition getUserById :: "db \<Rightarrow> objectId \<Rightarrow> error + user" where
  "getUserById s userId =
     (case findById (users s) userId of
        None \<Rightarrow> Inl (Error ''User not found'' None)
      | Some user \<Rightarrow> Inr user)"

definition updateUser :: "ext \<Rightarrow> env \<Rightarrow> db \<Rightarrow> objectId \<Rightarrow> updateData \<Rightarrow> (error + user) \<times> db" where
  "updateUser X E s userId updateData =
     (case findByIdAndUpdate (updateValidators X updateData) (setPaths updateData (now E))
             (upd_email updateData) (users s) userId of
        Inl err \<Rightarrow> (Inl err, s)
      | Inr (None, coll) \<Rightarrow> (Inl (Error ''User not found'' None), s)
      | Inr (Some user, coll) \<Rightarrow> (Inr user, s\<lparr>users := coll\<rparr>))"

definition deleteUser :: "db \<Rightarrow> objectId \<Rightarrow> (error + string) \<times> db" where
  "deleteUser s userId =
     (case findByIdAndDelete (users s) userId of
        (None, coll) \<Rightarrow> (Inl (Error ''User not found'' None), s)
      | (Some user, coll) \<Rightarrow> (Inr ''User deleted successfully'', s\<lparr>users := coll\<rparr>))"

definition getAllUsers :: "db \<Rightarrow> (string \<times> json) list list" where
  "getAllUsers s = map (\<lambda>u. select_minus_password (User_toObject u)) (users s)"

subsection \<open>ServiceProviderService (services/serviceProviderService.js)\<close>

definition getServiceProviderById :: "db \<Rightarrow> objectId \<Rightarrow> error + serviceProvider" where
  "getServiceProviderById s providerId =
     (case findById (serviceProviders s) providerId of
        None \<Rightarrow> Inl (Error ''Service provider not found'' None)
      | Some serviceProvider \<Rightarrow> Inr serviceProvider)"

definition updateServiceProvider ::
  "ext \<Rightarrow> env \<Rightarrow> db \<Rightarrow> objectId \<Rightarrow> providerUpdateData \<Rightarrow> (error + serviceProvider) \<times> db" where
  "updateServiceProvider X E s providerId updateData =
     (case findByIdAndUpdate (providerUpdateValidators X updateData)
             (setProviderPaths updateData (now E)) (upd_email updateData)
             (serviceProviders s) providerId of
        Inl err \<Rightarrow> (Inl err, s)
      | Inr (None, coll) \<Rightarrow> (Inl (Error ''Service provider not found'' None), s)
      | Inr (Some serviceProvider, coll) \<Rightarrow> (Inr serviceProvider, s\<lparr>serviceProviders := coll\<rparr>))"

definition deleteServiceProvider :: "db \<Rightarrow> objectId \<Rightarrow> (error + string) \<times> db" where
  "deleteServiceProvider s providerId =
     (case findByIdAndDelete (serviceProviders s) providerId of
        (None, coll) \<Rightarrow> (Inl (Error ''Service provider not found'' None), s)
      | (Some serviceProvider, coll) \<Rightarrow>
          (Inr ''Service provider deleted successfully'', s\<lparr>serviceProviders := coll\<rparr>))"

definition getAllServiceProviders :: "db \<Rightarrow> (string \<times> json) list list" where
  "getAllServiceProviders s =
     map (\<lambda>p. select_minus_password (ServiceProvider_toObject p)) (serviceProviders s)"

definition getServiceProvidersByExpertise :: "db \<Rightarrow> string \<Rightarrow> (string \<times> json) list list" where
  "getServiceProvidersByExpertise s e =
     map (\<lambda>p. select_minus_password (ServiceProvider_toObject p))
       (filter (\<lambda>p. e \<in> set (expertise p)) (serviceProviders s))"

section \<open>User and service provider controllers\<close>

text \<open>
  \<open>res.json(x)\<close> serializes \<open>x\<close>; a document in it is replaced by its \<open>toJSON()\<close>.
\<close>

definition UserController_getUser :: "string \<Rightarrow> db \<Rightarrow> objectId \<Rightarrow> response" where
  "UserController_getUser failure s userId =
     (case getUserById s userId of
        Inr user \<Rightarrow> (200, JObj [(''user'', User_toJSON user)])
      | Inl err \<Rightarrow>
          if message err = ''User not found'' then (404, messageBody (message err))
          else (500, messageBody failure))"

definition getUserProfile :: "db \<Rightarrow> objectId \<Rightarrow> response" where
  "getUserProfile s userId = UserController_getUser ''Error fetching user profile'' s userId"

definition UserController_getUserById :: "db \<Rightarrow> objectId \<Rightarrow> response" where
  "UserController_getUserById s userId = UserController_getUser ''Error fetching user'' s userId"

definition updateUserProfile :: "ext \<Rightarrow> env \<Rightarrow> db \<Rightarrow> objectId \<Rightarrow> updateData \<Rightarrow> response \<times> db" where
  "updateUserProfile X E s userId body =
     (case updateUser X E s userId body of
        (Inr updatedUser, s') \<Rightarrow>
          ((200, JObj [(''message'', JStr ''User profile updated successfully''),
                       (''user'', User_toJSON updatedUser)]), s')
      | (Inl err, s') \<Rightarrow>
          if message err = ''User not found'' then ((404, messageBody (message err)), s')
          else ((500, messageBody ''Error updating user profile''), s'))"

definition UserController_getAllUsers :: "db \<Rightarrow> response" where
  "UserController_getAllUsers s =
     (200, JObj [(''users'', JArr (map projected_toJSON (getAllUsers s)))])"

definition ServiceProviderController_getServiceProvider :: "string \<Rightarrow> db \<Rightarrow> objectId \<Rightarrow> response" where
  "ServiceProviderController_getServiceProvider failure s providerId =
     (case getServiceProviderById s providerId of
        Inr serviceProvider \<Rightarrow>
          (200, JObj [(''serviceProvider'', ServiceProvider_toJSON serviceProvider)])
      | Inl err \<Rightarrow>
          if message err = ''Service provider not found'' then (404, messageBody (message err))
          else (500, messageBody failure))"

definition getServiceProviderProfile :: "db \<Rightarrow> objectId \<Rightarrow> response" where
  "getServiceProviderProfile s providerId =
     ServiceProviderController_getServiceProvider ''Error fetching service provider profile'' s providerId"

definition ServiceProviderController_getServiceProviderById :: "db \<Rightarrow> objectId \<Rightarrow> response" where
  "ServiceProviderController_getServiceProviderById s providerId =
     ServiceProviderController_getServiceProvider ''Error fetching service provider'' s providerId"

definition updateServiceProviderProfile ::
  "ext \<Rightarrow> env \<Rightarrow> db \<Rightarrow> objectId \<Rightarrow> providerUpdateData \<Rightarrow> response \<times> db" where
  "updateServiceProviderProfile X E s providerId body =
     (case updateServiceProvider X E s providerId body of
        (Inr updated, s') \<Rightarrow>
          ((200, JObj [(''message'', JStr ''Service provider profile updated successfully''),
                       (''serviceProvider'', ServiceProvider_toJSON updated)]), s')
      | (Inl err, s') \<Rightarrow>
          if message err = ''Service provider not found''
          then ((404, messageBody (message err)), s')
          else ((500, messageBody ''Error updating service provider profile''), s'))"

definition ServiceProviderController_getAllServiceProviders :: "db \<Rightarrow> response" where
  "ServiceProviderController_getAllServiceProviders s =
     (200, JObj [(''serviceProviders'', JArr (map projected_toJSON (getAllServiceProviders s)))])"

definition ServiceProviderController_getServiceProvidersByExpertise :: "db \<Rightarrow> string \<Rightarrow> response" where
  "ServiceProviderController_getServiceProvidersByExpertise s e =
     (200, JObj [(''serviceProviders'',
                  JArr (map projected_toJSON (getServiceProvidersByExpertise s e)))])"

section \<open>Vocabulary of the properties\<close>

fun account_resetPasswordToken :: "account \<Rightarrow> string option" where
  "account_resetPasswordToken (Regular u) = resetPasswordToken u"
| "account_resetPasswordToken (Provider p) = resetPasswordToken p"

fun account_resetPasswordExpires :: "account \<Rightarrow> date option" where
  "account_resetPasswordExpires (Regular u) = resetPasswordExpires u"
| "account_resetPasswordExpires (Provider p) = resetPasswordExpires p"

text \<open>The schema validation of a stored account, by its model.\<close>

fun account_errors :: "ext \<Rightarrow> account \<Rightarrow> (string \<times> string) list" where
  "account_errors X (Regular u) = validateUser X u"
| "account_errors X (Provider p) = validateServiceProvider X p"

text \<open>
  The collection that a \<open>userType\<close> names, as \<open>resetPassword\<close> chooses it: the stored
  account of an id, and the reset tokens the collection holds.
\<close>

definition storedAccount :: "db \<Rightarrow> string \<Rightarrow> objectId \<Rightarrow> account option" where
  "storedAccount s userType i =
     (if userType = ''serviceProvider'' then map_option Provider (findById (serviceProviders s) i)
      else map_option Regular (findById (users s) i))"

definition resetTokens :: "db \<Rightarrow> string \<Rightarrow> string option list" where
  "resetTokens s userType =
     (if userType = ''serviceProvider'' then map resetPasswordToken (serviceProviders s)
      else map resetPasswordToken (users s))"

text \<open>
  An account with the first name and the update stamp blanked: two accounts with the same
  \<open>otherFields\<close> agree on every other path.
\<close>

definition otherFields :: "'a user_scheme \<Rightarrow> 'a user_scheme" where
  "otherFields u = u\<lparr>firstName := [], updatedAt := 0\<rparr>"

section \<open>Sample data\<close>

text \<open>A toy instance of the libraries and a small database, for concrete runs.\<close>

definition demoExt :: ext where
  "demoExt =
     \<lparr>bcrypt_hash = (\<lambda>plain salt. ''$2a$10$'' @ salt @ plain),
      bcrypt_compare = (\<lambda>plain digest.
         7 + length plain \<le> length digest \<and> take 7 digest = ''$2a$10$'' \<and>
         drop (length digest - length plain) digest = plain),
      email_regex = (\<lambda>v. CHR ''@'' \<in> set v),
      jwt_sign = (\<lambda>i t. ''jwt.'' @ replicate i CHR ''i''),
      jwt_verify = (\<lambda>token t.
         if take 4 token = ''jwt.'' then Inr (length token - 4) else Inl ''JsonWebTokenError'')\<rparr>"

definition alice :: user where
  "alice =
     \<lparr>oid = 1, firstName = ''Alice'', lastName = ''Ames'', email = ''a@x.com'',
      password = ''$2a$10$saltsecret1'', phoneNumber = ''555 0100'', address = ''1 Main St'',
      postcode = ''12345'', resetPasswordToken = None, resetPasswordExpires = None,
      createdAt = 0, updatedAt = 0\<rparr>"

definition bob :: serviceProvider where
  "bob =
     \<lparr>oid = 2, firstName = ''Bob'', lastName = ''Burns'', email = ''b@x.com'',
      password = ''$2a$10$saltsecret2'', phoneNumber = ''555 0101'', address = ''2 Main St'',
      postcode = ''12346'', resetPasswordToken = None, resetPasswordExpires = None,
      createdAt = 0, updatedAt = 0, expertise = [''Plumbing''], businessBio = ''Pipes''\<rparr>"

definition demoDb :: db where
  "demoDb = \<lparr>users = [alice], serviceProviders = [bob]\<rparr>"

definition demoEnv :: env where
  "demoEnv = \<lparr>now = 1000, newObjectId = 7, genSalt = ''salt'', randomBytes = ''c0ffee'',
              sendMail = True\<rparr>"

text \<open>The empty update, from which the sample request bodies are built.\<close>

definition noUpdate :: updateData where
  "noUpdate =
     \<lparr>upd_firstName = None, upd_lastName = None, upd_phoneNumber = None, upd_address = None,
      upd_postcode = None, upd_email = None, upd_password = None,
      upd_resetPasswordToken = None, upd_resetPasswordExpires = None\<rparr>"

definition noProviderUpdate :: providerUpdateData where
  "noProviderUpdate =
     \<lparr>upd_firstName = None, upd_lastName = None, upd_phoneNumber = None, upd_address = None,
      upd_postcode = None, upd_email = None, upd_password = None,
      upd_resetPasswordToken = None, upd_resetPasswordExpires = None,
      upd_expertise = None, upd_businessBio = None\<rparr>"

text \<open>Registration data for a new email, written with a capital and a trailing space.\<close>

definition carolData :: userData where
  "carolData =
     \<lparr>data_firstName = ''Carol'', data_lastName = ''Cole'', data_email = ''C@x.com '',
      data_password = ''secret1'', data_phoneNumber = ''555 0102'', data_address = ''3 Main St'',
      data_postcode = ''12347''\<rparr>"

definition carolProviderData :: providerData where
  "carolProviderData =
     \<lparr>data_firstName = ''Carol'', data_lastName = ''Cole'', data_email = ''C@x.com '',
      data_password = ''secret1'', data_phoneNumber = ''555 0102'', data_address = ''3 Main St'',
      data_postcode = ''12347'', data_expertise = [''Roofing''], data_businessBio = ''Roofs''\<rparr>"

text \<open>A service provider with the id and the email of the sample user.\<close>

definition twin :: serviceProvider where
  "twin =
     \<lparr>oid = 1, firstName = ''Alice'', lastName = ''Ames'', email = ''a@x.com'',
      password = ''$2a$10$saltsecret3'', phoneNumber = ''555 0103'', address = ''1 Main St'',
      postcode = ''12345'', resetPasswordToken = None, resetPasswordExpires = None,
      createdAt = 0, updatedAt = 0, expertise = [''Carpentry''], businessBio = ''Wood''\<rparr>"

definition sharedDb :: db where
  "sharedDb = \<lparr>users = [alice], serviceProviders = [twin, bob]\<rparr>"

text \<open>An empty database, and one whose only service provider shares the user's id and email.\<close>

definition emptyDb :: db where
  "emptyDb = \<lparr>users = [], serviceProviders = []\<rparr>"

definition tieDb :: db where
  "tieDb = \<lparr>users = [alice], serviceProviders = [twin]\<rparr>"

section \<open>Properties\<close>

subsection \<open>Lists and strings\<close>

lemma find_Some_mem: "find P xs = Some x \<Longrightarrow> x \<in> set xs \<and> P x"
  by (induction xs) (auto split: if_splits)

lemma emailSetter_ax: "emailSetter ''a@x.com'' = ''a@x.com''"
  by (simp add: emailSetter_def trim_def toLowerCase_def lowerChar_def isWhiteSpace_def)

lemma emailSetter_zx: "emailSetter ''z@x.com'' = ''z@x.com''"
  by (simp add: emailSetter_def trim_def toLowerCase_def lowerChar_def isWhiteSpace_def)

lemma includes_invalid_credentials:
  "str_includes ''Invalid email or password'' ''Invalid email or password''"
  by (simp add: str_includes_def)

subsection \<open>Login\<close>

text \<open>
  C2. A login with an email that no account of either collection has, and a login with an
  email that resolves to an account but a password that \<open>comparePassword\<close> rejects, throw
  the same error and get the same response: status 401 with the message
  \<open>Invalid email or password\<close>.
\<close>

theorem login_failures_indistinguishable:
  assumes unknown_users: "emailSetter e1 \<notin> email ` set (users s)"
    and unknown_providers: "emailSetter e1 \<notin> email ` set (serviceProviders s)"
    and known: "findUserOrProvider s e2 = (Some a, kind)"
    and wrong: "\<not> account_comparePassword X a pw2"
  shows "login X E1 s e1 pw1 = Inl (Error ''Invalid email or password'' None)
       \<and> login X E2 s e2 pw2 = login X E1 s e1 pw1
       \<and> AuthController_login X E1 s e1 pw1 = (401, messageBody ''Invalid email or password'')
       \<and> AuthController_login X E2 s e2 pw2 = AuthController_login X E1 s e1 pw1"
proof -
  have nu: "findOneByEmail (users s) e1 = None"
    using unknown_users by (force simp: findOneByEmail_def find_None_iff)
  have np: "findOneByEmail (serviceProviders s) e1 = None"
    using unknown_providers by (force simp: findOneByEmail_def find_None_iff)
  have l1: "login X E1 s e1 pw1 = Inl (Error ''Invalid email or password'' None)"
    by (simp add: login_def findUserOrProvider_def nu np)
  have l2: "login X E2 s e2 pw2 = Inl (Error ''Invalid email or password'' None)"
    using known wrong by (simp add: login_def)
  have c1: "AuthController_login X E1 s e1 pw1 = (401, messageBody ''Invalid email or password'')"
    by (simp add: AuthController_login_def l1 includes_invalid_credentials)
  have c2: "AuthController_login X E2 s e2 pw2 = (401, messageBody ''Invalid email or password'')"
    by (simp add: AuthController_login_def l2 includes_invalid_credentials)
  show ?thesis by (simp add: l1 l2 c1 c2)
qed

theorem login_failures_indistinguishable_witness:
  "emailSetter ''z@x.com'' \<notin> email ` set (users demoDb)
   \<and> emailSetter ''z@x.com'' \<notin> email ` set (serviceProviders demoDb)
   \<and> findUserOrProvider demoDb ''a@x.com'' = (Some (Regular alice), ''user'')
   \<and> \<not> account_comparePassword demoExt (Regular alice) ''wrong''
   \<and> login demoExt demoEnv demoDb ''a@x.com'' ''wrong''
       = login demoExt demoEnv demoDb ''z@x.com'' ''secret1''
   \<and> AuthController_login demoExt demoEnv demoDb ''a@x.com'' ''wrong''
       = (401, messageBody ''Invalid email or password'')"
proof -
  have a: "emailSetter ''z@x.com'' \<notin> email ` set (users demoDb)"
    by (simp add: emailSetter_zx demoDb_def alice_def)
  have b: "emailSetter ''z@x.com'' \<notin> email ` set (serviceProviders demoDb)"
    by (simp add: emailSetter_zx demoDb_def bob_def)
  have c: "findUserOrProvider demoDb ''a@x.com'' = (Some (Regular alice), ''user'')"
    by (simp add: findUserOrProvider_def findOneByEmail_def emailSetter_ax demoDb_def alice_def)
  have d: "\<not> account_comparePassword demoExt (Regular alice) ''wrong''"
    by (simp add: comparePassword_def demoExt_def alice_def)
  from login_failures_indistinguishable [OF a b c d, of demoEnv "''secret1''" demoEnv]
  show ?thesis using a b c d by simp
qed

subsection \<open>Serialized accounts\<close>

lemma no_password_userObject: "\<not> hasField ''password'' (JObj (deleteKey ''password'' (userObject u)))"
  by (simp add: deleteKey_def userObject_def split: option.split)

lemma no_password_User_toJSON: "\<not> hasField ''password'' (User_toJSON u)"
  unfolding User_toJSON_def User_toObject_def by (rule no_password_userObject)

lemma no_password_strings: "\<not> list_ex (hasField k) (map JStr xs)"
  by (induction xs) auto

lemma no_password_ServiceProvider_toJSON: "\<not> hasField ''password'' (ServiceProvider_toJSON p)"
  by (simp add: ServiceProvider_toJSON_def ServiceProvider_toObject_def deleteKey_def
      userObject_def no_password_strings split: option.split)

lemma deleteKey_idem: "deleteKey k (deleteKey k obj) = deleteKey k obj"
  by (simp add: deleteKey_def)

lemma no_password_projected_user:
  "\<not> hasField ''password'' (projected_toJSON (select_minus_password (User_toObject u)))"
  using no_password_User_toJSON [of u]
  by (simp add: projected_toJSON_def select_minus_password_def deleteKey_idem User_toJSON_def)

lemma no_password_projected_provider:
  "\<not> hasField ''password'' (projected_toJSON (select_minus_password (ServiceProvider_toObject p)))"
  using no_password_ServiceProvider_toJSON [of p]
  by (simp add: projected_toJSON_def select_minus_password_def deleteKey_idem
      ServiceProvider_toJSON_def)

lemma no_password_messageBody: "\<not> hasField ''password'' (messageBody m)"
  by (simp add: messageBody_def)

lemma no_password_account: "\<not> hasField ''password'' (account_toJSON a)"
  by (cases a) (simp_all add: no_password_User_toJSON no_password_ServiceProvider_toJSON)

lemma userType_cases:
  "findUserOrProvider s e = (a, t) \<Longrightarrow> t = ''user'' \<or> t = ''serviceProvider''"
  by (auto simp: findUserOrProvider_def split: option.splits)

lemma no_password_login: "\<not> hasField ''password'' (snd (AuthController_login X E s e pw))"
proof (cases "findUserOrProvider s e")
  case (Pair a t)
  from userType_cases [OF Pair] show ?thesis
    by (auto simp: AuthController_login_def login_def Pair no_password_messageBody
        no_password_account split: option.splits)
qed

lemma no_password_getUser: "\<not> hasField ''password'' (snd (UserController_getUser f s i))"
  by (simp add: UserController_getUser_def getUserById_def no_password_messageBody
      no_password_User_toJSON split: option.split)

lemma no_password_getServiceProvider:
  "\<not> hasField ''password'' (snd (ServiceProviderController_getServiceProvider f s i))"
  by (simp add: ServiceProviderController_getServiceProvider_def getServiceProviderById_def
      no_password_messageBody no_password_ServiceProvider_toJSON split: option.split)

lemma no_password_updateUserProfile:
  "\<not> hasField ''password'' (snd (fst (updateUserProfile X E s i d)))"
  by (simp add: updateUserProfile_def no_password_messageBody no_password_User_toJSON
      split: prod.split sum.split)

lemma no_password_updateServiceProviderProfile:
  "\<not> hasField ''password'' (snd (fst (updateServiceProviderProfile X E s i d)))"
  by (simp add: updateServiceProviderProfile_def no_password_messageBody
      no_password_ServiceProvider_toJSON split: prod.split sum.split)

lemma no_password_user_list:
  "\<not> list_ex (hasField ''password'')
        (map (\<lambda>u. projected_toJSON (select_minus_password (User_toObject u))) us)"
  by (induction us) (simp_all add: no_password_projected_user)

lemma no_password_provider_list:
  "\<not> list_ex (hasField ''password'')
        (map (\<lambda>p. projected_toJSON (select_minus_password (ServiceProvider_toObject p))) ps)"
  by (induction ps) (simp_all add: no_password_projected_provider)

text \<open>
  C6. The response body of every endpoint that returns an account (login, get and update
  profile, fetch by id, list all, list by expertise), for users and for service providers,
  has no field named \<open>password\<close> at any depth, whatever the outcome of the request.
\<close>

theorem responses_have_no_password:
  "\<not> hasField ''password'' (snd (AuthController_login X E s e pw))
   \<and> \<not> hasField ''password'' (snd (getUserProfile s i))
   \<and> \<not> hasField ''password'' (snd (fst (updateUserProfile X E s i d)))
   \<and> \<not> hasField ''password'' (snd (UserController_getUserById s i))
   \<and> \<not> hasField ''password'' (snd (UserController_getAllUsers s))
   \<and> \<not> hasField ''password'' (snd (getServiceProviderProfile s i))
   \<and> \<not> hasField ''password'' (snd (fst (updateServiceProviderProfile X E s i d')))
   \<and> \<not> hasField ''password'' (snd (ServiceProviderController_getServiceProviderById s i))
   \<and> \<not> hasField ''password'' (snd (ServiceProviderController_getAllServiceProviders s))
   \<and> \<not> hasField ''password'' (snd (ServiceProviderController_getServiceProvidersByExpertise s t))"
  by (simp add: no_password_login getUserProfile_def UserController_getUserById_def
      no_password_getUser no_password_updateUserProfile
      UserController_getAllUsers_def getAllUsers_def no_password_user_list
      getServiceProviderProfile_def ServiceProviderController_getServiceProviderById_def
      no_password_getServiceProvider no_password_updateServiceProviderProfile
      ServiceProviderController_getAllServiceProviders_def getAllServiceProviders_def
      ServiceProviderController_getServiceProvidersByExpertise_def
      getServiceProvidersByExpertise_def no_password_provider_list comp_def)

subsection \<open>Updates that bypass the model\<close>

text \<open>
  C3, at the input where the code departs from it. The profile update of user 1 with the
  body \<open>{password: 'hunter22'}\<close> is answered with status 200, and the stored password is
  then the submitted text itself: \<open>findByIdAndUpdate\<close> runs no \<open>save\<close> hook, so nothing
  hashes it.
\<close>

theorem update_stores_plaintext_password:
  "updateUser X E demoDb 1 (noUpdate\<lparr>upd_password := Some ''hunter22''\<rparr>)
     = (Inr (alice\<lparr>password := ''hunter22'', updatedAt := now E\<rparr>),
        \<lparr>users = [alice\<lparr>password := ''hunter22'', updatedAt := now E\<rparr>],
         serviceProviders = [bob]\<rparr>)
   \<and> fst (fst (updateUserProfile X E demoDb 1 (noUpdate\<lparr>upd_password := Some ''hunter22''\<rparr>))) = 200"
  by (simp add: updateUserProfile_def updateUser_def findByIdAndUpdate_def updateValidators_def
      noUpdate_def v_password_def checkPath_def findById_def demoDb_def setPaths_def alice_def)

text \<open>
  C5, at the input where the code departs from it. The profile update of user 1 with the
  body \<open>{resetPasswordToken: 'x'}\<close> succeeds and leaves the account with a reset token
  and no expiry.
\<close>

theorem update_sets_token_without_expiry:
  "updateUser X E demoDb 1 (noUpdate\<lparr>upd_resetPasswordToken := Some ''x''\<rparr>)
     = (Inr (alice\<lparr>resetPasswordToken := Some ''x'', updatedAt := now E\<rparr>),
        \<lparr>users = [alice\<lparr>resetPasswordToken := Some ''x'', updatedAt := now E\<rparr>],
         serviceProviders = [bob]\<rparr>)
   \<and> resetPasswordExpires (alice\<lparr>resetPasswordToken := Some ''x'', updatedAt := now E\<rparr>) = None"
  by (simp add: updateUser_def findByIdAndUpdate_def updateValidators_def
      noUpdate_def findById_def demoDb_def setPaths_def alice_def)

subsection \<open>Profile updates\<close>

lemma map_updateOne_frame:
  "(\<And>x. g (f x) = g x) \<Longrightarrow> map g (updateOne P f xs) = map g xs"
  by (induction xs) auto

lemma find_key_updateOne:
  "\<exists>x\<in>set xs. Q x \<Longrightarrow> Q y \<Longrightarrow> find Q (updateOne Q (\<lambda>v. y) xs) = Some y"
  by (induction xs) auto

lemma otherFields_setPaths:
  "otherFields (setPaths (noUpdate\<lparr>upd_firstName := Some v\<rparr>) t u) = otherFields u"
  by (simp add: otherFields_def setPaths_def noUpdate_def)

lemma password_setPaths:
  "password (setPaths (noUpdate\<lparr>upd_firstName := Some v\<rparr>) t u) = password u"
  by (simp add: setPaths_def noUpdate_def)

lemma otherFields_setProviderPaths:
  "otherFields (setProviderPaths (noProviderUpdate\<lparr>upd_firstName := Some v\<rparr>) t p) = otherFields p"
  by (simp add: otherFields_def setProviderPaths_def setPaths_def noProviderUpdate_def)

lemma password_setProviderPaths:
  "password (setProviderPaths (noProviderUpdate\<lparr>upd_firstName := Some v\<rparr>) t p) = password p"
  by (simp add: setProviderPaths_def setPaths_def noProviderUpdate_def)

lemma updateUser_firstName_frame:
  "serviceProviders (snd (updateUser X E s i (noUpdate\<lparr>upd_firstName := Some v\<rparr>))) = serviceProviders s
   \<and> map otherFields (users (snd (updateUser X E s i (noUpdate\<lparr>upd_firstName := Some v\<rparr>))))
       = map otherFields (users s)
   \<and> map password (users (snd (updateUser X E s i (noUpdate\<lparr>upd_firstName := Some v\<rparr>))))
       = map password (users s)"
  by (simp add: updateUser_def findByIdAndUpdate_def map_updateOne_frame
      otherFields_setPaths password_setPaths split: list.split option.split)

lemma updateServiceProvider_firstName_frame:
  "users (snd (updateServiceProvider X E s i (noProviderUpdate\<lparr>upd_firstName := Some v\<rparr>))) = users s
   \<and> map otherFields (serviceProviders
         (snd (updateServiceProvider X E s i (noProviderUpdate\<lparr>upd_firstName := Some v\<rparr>))))
       = map otherFields (serviceProviders s)
   \<and> map password (serviceProviders
         (snd (updateServiceProvider X E s i (noProviderUpdate\<lparr>upd_firstName := Some v\<rparr>))))
       = map password (serviceProviders s)"
  by (simp add: updateServiceProvider_def findByIdAndUpdate_def map_updateOne_frame
      otherFields_setProviderPaths password_setProviderPaths split: list.split option.split)

lemma updateUser_firstName_success:
  assumes "findById (users s) i = Some u" "trim v \<noteq> []" "length (trim v) \<le> 50"
  shows "fst (updateUser X E s i (noUpdate\<lparr>upd_firstName := Some v\<rparr>))
           = Inr (u\<lparr>firstName := trim v, updatedAt := now E\<rparr>)"
  using assms
  by (simp add: updateUser_def findByIdAndUpdate_def updateValidators_def v_firstName_def
      checkPath_def noUpdate_def setPaths_def)

lemma updateServiceProvider_firstName_success:
  assumes "findById (serviceProviders s) i = Some p" "trim v \<noteq> []" "length (trim v) \<le> 50"
  shows "fst (updateServiceProvider X E s i (noProviderUpdate\<lparr>upd_firstName := Some v\<rparr>))
           = Inr (p\<lparr>firstName := trim v, updatedAt := now E\<rparr>)"
  using assms
  by (simp add: updateServiceProvider_def findByIdAndUpdate_def providerUpdateValidators_def
      updateValidators_def v_firstName_def
      checkPath_def noProviderUpdate_def setProviderPaths_def setPaths_def)


text \<open>
  C9. A profile update whose data holds only \<open>firstName\<close>, for a user or for a service
  provider, leaves the password of every stored account as it was, and every path other
  than \<open>firstName\<close> and \<open>updatedAt\<close> too, whether the update succeeds or fails;
  the other collection is not touched. When the id is stored and the trimmed name is
  valid, the update succeeds and the account gets the trimmed name.
\<close>

theorem firstName_update_frame:
  "map password (users (snd (updateUser X E s i (noUpdate\<lparr>upd_firstName := Some v\<rparr>))))
       = map password (users s)
   \<and> map otherFields (users (snd (updateUser X E s i (noUpdate\<lparr>upd_firstName := Some v\<rparr>))))
       = map otherFields (users s)
   \<and> serviceProviders (snd (updateUser X E s i (noUpdate\<lparr>upd_firstName := Some v\<rparr>)))
       = serviceProviders s
   \<and> map password (serviceProviders
         (snd (updateServiceProvider X E s i (noProviderUpdate\<lparr>upd_firstName := Some v\<rparr>))))
       = map password (serviceProviders s)
   \<and> map otherFields (serviceProviders
         (snd (updateServiceProvider X E s i (noProviderUpdate\<lparr>upd_firstName := Some v\<rparr>))))
       = map otherFields (serviceProviders s)
   \<and> users (snd (updateServiceProvider X E s i (noProviderUpdate\<lparr>upd_firstName := Some v\<rparr>)))
       = users s
   \<and> (trim v \<noteq> [] \<and> length (trim v) \<le> 50 \<longrightarrow>
        (\<forall>u. findById (users s) i = Some u \<longrightarrow>
           fst (updateUser X E s i (noUpdate\<lparr>upd_firstName := Some v\<rparr>))
             = Inr (u\<lparr>firstName := trim v, updatedAt := now E\<rparr>)) \<and>
        (\<forall>p. findById (serviceProviders s) i = Some p \<longrightarrow>
           fst (updateServiceProvider X E s i (noProviderUpdate\<lparr>upd_firstName := Some v\<rparr>))
             = Inr (p\<lparr>firstName := trim v, updatedAt := now E\<rparr>)))"
  using updateUser_firstName_frame [of X E s i v]
    updateServiceProvider_firstName_frame [of X E s i v]
    updateUser_firstName_success [of s i _ v X E]
    updateServiceProvider_firstName_success [of s i _ v X E]
  by blast

lemma trim_Alicia: "trim '' Alicia '' = ''Alicia''"
  by (simp add: trim_def isWhiteSpace_def)

theorem firstName_update_frame_witness:
  "trim '' Alicia '' \<noteq> [] \<and> length (trim '' Alicia '') \<le> 50
   \<and> findById (users sharedDb) 1 = Some alice
   \<and> findById (serviceProviders sharedDb) 1 = Some twin
   \<and> fst (updateUser demoExt demoEnv sharedDb 1 (noUpdate\<lparr>upd_firstName := Some '' Alicia ''\<rparr>))
       = Inr (alice\<lparr>firstName := ''Alicia'', updatedAt := 1000\<rparr>)
   \<and> map password
         (users (snd (updateUser demoExt demoEnv sharedDb 1
                        (noUpdate\<lparr>upd_firstName := Some '' Alicia ''\<rparr>))))
       = [''$2a$10$saltsecret1'']
   \<and> fst (updateServiceProvider demoExt demoEnv sharedDb 1
             (noProviderUpdate\<lparr>upd_firstName := Some '' Alicia ''\<rparr>))
       = Inr (twin\<lparr>firstName := ''Alicia'', updatedAt := 1000\<rparr>)
   \<and> map password
         (serviceProviders (snd (updateServiceProvider demoExt demoEnv sharedDb 1
                                   (noProviderUpdate\<lparr>upd_firstName := Some '' Alicia ''\<rparr>))))
       = [''$2a$10$saltsecret3'', ''$2a$10$saltsecret2'']"
proof -
  have a: "trim '' Alicia '' \<noteq> [] \<and> length (trim '' Alicia '') \<le> 50"
    by (simp add: trim_Alicia)
  have b: "findById (users sharedDb) 1 = Some alice"
    by (simp add: findById_def sharedDb_def alice_def)
  have b': "findById (serviceProviders sharedDb) 1 = Some twin"
    by (simp add: findById_def sharedDb_def twin_def)
  have n: "now demoEnv = 1000" by (simp add: demoEnv_def)
  have pu: "map password (users sharedDb) = [''$2a$10$saltsecret1'']"
    by (simp add: sharedDb_def alice_def)
  have pp: "map password (serviceProviders sharedDb) = [''$2a$10$saltsecret3'', ''$2a$10$saltsecret2'']"
    by (simp add: sharedDb_def twin_def bob_def)
  note th = firstName_update_frame [of demoExt demoEnv sharedDb 1 "'' Alicia ''"]
  show ?thesis using th a b b' by (simp add: trim_Alicia n pu pp)
qed

subsection \<open>Forgotten passwords\<close>

lemma resolve_cases:
  assumes "findUserOrProvider s e = (Some a, kind)"
  shows "(\<exists>u. a = Regular u \<and> kind = ''user'' \<and> findOneByEmail (users s) e = Some u) \<or>
         (\<exists>p. a = Provider p \<and> kind = ''serviceProvider'' \<and>
              findOneByEmail (users s) e = None \<and> findOneByEmail (serviceProviders s) e = Some p)"
  using assms by (auto simp: findUserOrProvider_def split: option.splits)

lemma findOneByEmail_mem: "findOneByEmail coll e = Some u \<Longrightarrow> u \<in> set coll"
  by (simp add: findOneByEmail_def find_Some_mem)

lemma validateUser_reset_fields:
  "validateUser X (u\<lparr>resetPasswordToken := a, resetPasswordExpires := b\<rparr>) = validateUser X u"
  by (simp add: validateUser_def)

lemma validateServiceProvider_reset_fields:
  "validateServiceProvider X (p\<lparr>resetPasswordToken := a, resetPasswordExpires := b\<rparr>)
     = validateServiceProvider X p"
  by (simp add: validateServiceProvider_def validateUser_def)

lemma save_existing:
  "validate u = [] \<Longrightarrow>
   save X E n validate False m u coll =
     Inr ((preSave X E m u)\<lparr>updatedAt := now E\<rparr>,
          updateOne (\<lambda>v. oid v = oid u) (\<lambda>v. (preSave X E m u)\<lparr>updatedAt := now E\<rparr>) coll)"
  by (simp add: save_def Let_def)

lemma forgotPassword_regular:
  assumes "findUserOrProvider s e = (Some (Regular u), kind)" "validateUser X u = []"
  shows "forgotPassword X E s e =
           (if sendMail E then Inr ''Password reset email sent successfully''
            else Inl (Error ''Email service unavailable. Please contact support for password reset.'' None),
            s\<lparr>users := updateOne (\<lambda>v. oid v = oid u)
                 (\<lambda>v. u\<lparr>resetPasswordToken := Some (randomBytes E),
                         resetPasswordExpires := Some (now E + 3600000),
                         updatedAt := now E\<rparr>) (users s)\<rparr>)"
  using assms
  by (simp add: forgotPassword_def User_save_def save_existing validateUser_reset_fields
      preSave_def sendForgotPasswordEmail_def sendEmail_def)

lemma forgotPassword_provider:
  assumes "findUserOrProvider s e = (Some (Provider p), kind)" "validateServiceProvider X p = []"
  shows "forgotPassword X E s e =
           (if sendMail E then Inr ''Password reset email sent successfully''
            else Inl (Error ''Email service unavailable. Please contact support for password reset.'' None),
            s\<lparr>serviceProviders := updateOne (\<lambda>v. oid v = oid p)
                 (\<lambda>v. p\<lparr>resetPasswordToken := Some (randomBytes E),
                         resetPasswordExpires := Some (now E + 3600000),
                         updatedAt := now E\<rparr>) (serviceProviders s)\<rparr>)"
  using assms
  by (simp add: forgotPassword_def ServiceProvider_save_def save_existing
      validateServiceProvider_reset_fields preSave_def sendForgotPasswordEmail_def sendEmail_def)

lemma findById_updateOne:
  "u \<in> set coll \<Longrightarrow> oid y = oid u \<Longrightarrow>
   findById (updateOne (\<lambda>v. oid v = oid u) (\<lambda>v. y) coll) (oid u) = Some y"
  unfolding findById_def by (rule find_key_updateOne) auto

lemma not_includes_no_account:
  "\<not> str_includes ''Email service unavailable. Please contact support for password reset.''
        ''No account found''"
  by (simp add: str_includes_def sublist_code(3))

text \<open>
  C10. When \<open>forgotPassword\<close> finds a (schema-valid) account and the mail transport
  fails, the call throws the email error (status 500), and the state it leaves holds the
  new token and the expiry one hour after the call on that account: it is the state that
  a call with a working transport leaves, since the document is saved before the email
  is sent.
\<close>

theorem forgotPassword_persists_before_mail:
  assumes found: "findUserOrProvider s e = (Some a, kind)"
    and valid: "account_errors X a = []"
    and failure: "\<not> sendMail E"
  shows "fst (forgotPassword X E s e)
           = Inl (Error ''Email service unavailable. Please contact support for password reset.'' None)
       \<and> (\<exists>a'. storedAccount (snd (forgotPassword X E s e)) kind (account_id a) = Some a'
               \<and> account_resetPasswordToken a' = Some (randomBytes E)
               \<and> account_resetPasswordExpires a' = Some (now E + 3600000))
       \<and> snd (forgotPassword X E s e) = snd (forgotPassword X (E\<lparr>sendMail := True\<rparr>) s e)
       \<and> fst (fst (AuthController_forgotPassword X E s e)) = 500"
proof -
  from resolve_cases [OF found] show ?thesis
  proof (elim disjE exE conjE)
    fix u assume a: "a = Regular u" and k: "kind = ''user''"
      and f: "findOneByEmail (users s) e = Some u"
    have v: "validateUser X u = []" using valid a by simp
    have r: "findUserOrProvider s e = (Some (Regular u), kind)" using found a by simp
    have m: "u \<in> set (users s)" using f by (rule findOneByEmail_mem)
    show ?thesis
      using failure
      by (simp add: forgotPassword_regular [OF r v] a k storedAccount_def
          findById_updateOne [OF m] AuthController_forgotPassword_def not_includes_no_account)
  next
    fix p assume a: "a = Provider p" and k: "kind = ''serviceProvider''"
      and f: "findOneByEmail (serviceProviders s) e = Some p"
    have v: "validateServiceProvider X p = []" using valid a by simp
    have r: "findUserOrProvider s e = (Some (Provider p), kind)" using found a by simp
    have m: "p \<in> set (serviceProviders s)" using f by (rule findOneByEmail_mem)
    show ?thesis
      using failure
      by (simp add: forgotPassword_provider [OF r v] a k storedAccount_def
          findById_updateOne [OF m] AuthController_forgotPassword_def not_includes_no_account)
  qed
qed

lemma alice_valid: "validateUser demoExt alice = []"
  by (simp add: validateUser_def v_firstName_def v_lastName_def v_email_def v_password_def
      v_phoneNumber_def v_address_def v_postcode_def checkPath_def alice_def demoExt_def)

lemma bob_valid: "validateServiceProvider demoExt bob = []"
  by (simp add: validateServiceProvider_def validateUser_def v_firstName_def v_lastName_def
      v_email_def v_password_def v_phoneNumber_def v_address_def v_postcode_def
      v_expertise_def v_businessBio_def EXPERTISE_CATEGORIES_def checkPath_def bob_def
      demoExt_def)

lemma resolve_alice: "findUserOrProvider demoDb ''a@x.com'' = (Some (Regular alice), ''user'')"
  by (simp add: findUserOrProvider_def findOneByEmail_def emailSetter_ax demoDb_def alice_def)

theorem forgotPassword_persists_before_mail_witness:
  "findUserOrProvider demoDb ''a@x.com'' = (Some (Regular alice), ''user'')
   \<and> account_errors demoExt (Regular alice) = []
   \<and> \<not> sendMail (demoEnv\<lparr>sendMail := False\<rparr>)
   \<and> fst (forgotPassword demoExt (demoEnv\<lparr>sendMail := False\<rparr>) demoDb ''a@x.com'')
       = Inl (Error ''Email service unavailable. Please contact support for password reset.'' None)
   \<and> (\<exists>a'. storedAccount (snd (forgotPassword demoExt (demoEnv\<lparr>sendMail := False\<rparr>) demoDb ''a@x.com''))
               ''user'' 1 = Some a'
           \<and> account_resetPasswordToken a' = Some ''c0ffee''
           \<and> account_resetPasswordExpires a' = Some 3601000)"
proof -
  have v: "account_errors demoExt (Regular alice) = []" by (simp add: alice_valid)
  have f: "\<not> sendMail (demoEnv\<lparr>sendMail := False\<rparr>)" by simp
  have i: "account_id (Regular alice) = 1" by (simp add: alice_def)
  have r: "randomBytes (demoEnv\<lparr>sendMail := False\<rparr>) = ''c0ffee''" by (simp add: demoEnv_def)
  have n: "now (demoEnv\<lparr>sendMail := False\<rparr>) + 3600000 = 3601000" by (simp add: demoEnv_def)
  note th = forgotPassword_persists_before_mail [OF resolve_alice v f]
  from th have t1: "fst (forgotPassword demoExt (demoEnv\<lparr>sendMail := False\<rparr>) demoDb ''a@x.com'')
       = Inl (Error ''Email service unavailable. Please contact support for password reset.'' None)"
    by (rule conjunct1)
  from th have t2: "\<exists>a'. storedAccount (snd (forgotPassword demoExt (demoEnv\<lparr>sendMail := False\<rparr>) demoDb ''a@x.com''))
               ''user'' 1 = Some a'
           \<and> account_resetPasswordToken a' = Some ''c0ffee''
           \<and> account_resetPasswordExpires a' = Some 3601000"
    unfolding i r n by blast
  show ?thesis using resolve_alice v f t1 t2 by blast
qed

subsection \<open>The life of a reset token\<close>

lemma find_updateOne_hit:
  "\<exists>x\<in>set xs. Q x \<Longrightarrow> \<forall>x\<in>set xs. \<not> P x \<Longrightarrow> P y \<Longrightarrow>
   find P (updateOne Q (\<lambda>v. y) xs) = Some y"
  by (induction xs) auto

lemma find_updateOne_miss:
  "\<forall>x\<in>set xs. \<not> P x \<Longrightarrow> \<not> P y \<Longrightarrow> find P (updateOne Q (\<lambda>v. y) xs) = None"
  by (induction xs) (auto simp: find_None_iff)

lemma updateOne_twice:
  "Q y \<Longrightarrow> updateOne Q (\<lambda>v. z) (updateOne Q (\<lambda>v. y) xs) = updateOne Q (\<lambda>v. z) xs"
  by (induction xs) auto

lemma findOneByResetToken_hit:
  assumes "u \<in> set coll" "\<forall>v\<in>set coll. resetPasswordToken v \<noteq> Some tok"
    and "resetPasswordToken y = Some tok" "resetPasswordExpires y = Some x" "t < x"
  shows "findOneByResetToken (updateOne (\<lambda>v. oid v = oid u) (\<lambda>v. y) coll) tok t = Some y"
  unfolding findOneByResetToken_def
  by (rule find_updateOne_hit) (use assms in auto)

lemma findOneByResetToken_expired:
  assumes "\<forall>v\<in>set coll. resetPasswordToken v \<noteq> Some tok"
    and "resetPasswordExpires y = Some x" "x \<le> t"
  shows "findOneByResetToken (updateOne Q (\<lambda>v. y) coll) tok t = None"
  unfolding findOneByResetToken_def
  by (rule find_updateOne_miss) (use assms in auto)

lemma findOneByResetToken_cleared:
  assumes "\<forall>v\<in>set coll. resetPasswordToken v \<noteq> Some tok"
    and "resetPasswordToken y = None"
  shows "findOneByResetToken (updateOne Q (\<lambda>v. y) coll) tok t = None"
  unfolding findOneByResetToken_def
  by (rule find_updateOne_miss) (use assms in auto)

lemma validateUser_new_password:
  "validateUser X u = [] \<Longrightarrow> 6 \<le> length pw \<Longrightarrow>
   validateUser X (u\<lparr>password := pw, resetPasswordToken := a, resetPasswordExpires := b\<rparr>) = []"
  by (auto simp: validateUser_def v_password_def checkPath_def)

lemma validateServiceProvider_new_password:
  "validateServiceProvider X p = [] \<Longrightarrow> 6 \<le> length pw \<Longrightarrow>
   validateServiceProvider X
     (p\<lparr>password := pw, resetPasswordToken := a, resetPasswordExpires := b\<rparr>) = []"
  by (auto simp: validateServiceProvider_def validateUser_def v_password_def checkPath_def)

lemma includes_invalid_or_expired:
  "str_includes ''Invalid or expired reset token'' ''Invalid or expired''"
  by (simp add: str_includes_def)

lemma resetPassword_no_match_user:
  assumes "kind \<noteq> ''serviceProvider''" "findOneByResetToken (users s) tok (now E) = None"
  shows "resetPassword X E s tok pw kind = (Inl (Error ''Invalid or expired reset token'' None), s)"
    and "fst (AuthController_resetPassword X E s tok pw kind)
           = (400, messageBody ''Invalid or expired reset token'')"
  using assms
  by (simp_all add: resetPassword_def AuthController_resetPassword_def includes_invalid_or_expired)

lemma resetPassword_no_match_provider:
  assumes "findOneByResetToken (serviceProviders s) tok (now E) = None"
  shows "resetPassword X E s tok pw ''serviceProvider''
           = (Inl (Error ''Invalid or expired reset token'' None), s)"
    and "fst (AuthController_resetPassword X E s tok pw ''serviceProvider'')
           = (400, messageBody ''Invalid or expired reset token'')"
  using assms
  by (simp_all add: resetPassword_def AuthController_resetPassword_def includes_invalid_or_expired)

lemma resetPassword_match_user:
  assumes "kind \<noteq> ''serviceProvider''" "findOneByResetToken (users s) tok (now E) = Some u"
    and "validateUser X u = []" "6 \<le> length pw"
  shows "resetPassword X E s tok pw kind =
           (Inr ''Password reset successfully'',
            s\<lparr>users := updateOne (\<lambda>v. oid v = oid u)
                 (\<lambda>v. (preSave X E (pw \<noteq> password u)
                          (u\<lparr>password := pw, resetPasswordToken := None,
                             resetPasswordExpires := None\<rparr>))\<lparr>updatedAt := now E\<rparr>) (users s)\<rparr>)"
  using assms
  by (simp add: resetPassword_def User_save_def save_existing validateUser_new_password)

lemma resetPassword_match_provider:
  assumes "findOneByResetToken (serviceProviders s) tok (now E) = Some p"
    and "validateServiceProvider X p = []" "6 \<le> length pw"
  shows "resetPassword X E s tok pw ''serviceProvider'' =
           (Inr ''Password reset successfully'',
            s\<lparr>serviceProviders := updateOne (\<lambda>v. oid v = oid p)
                 (\<lambda>v. (preSave X E (pw \<noteq> password p)
                          (p\<lparr>password := pw, resetPasswordToken := None,
                             resetPasswordExpires := None\<rparr>))\<lparr>updatedAt := now E\<rparr>)
                 (serviceProviders s)\<rparr>)"
  using assms
  by (simp add: resetPassword_def ServiceProvider_save_def save_existing
      validateServiceProvider_new_password)

lemma preSave_fields [simp]:
  "oid (preSave X E m u) = oid u"
  "resetPasswordToken (preSave X E m u) = resetPasswordToken u"
  "resetPasswordExpires (preSave X E m u) = resetPasswordExpires u"
  by (simp_all add: preSave_def)


lemma token_lifecycle_coll:
  assumes mem: "u \<in> set coll"
    and fresh: "\<forall>v\<in>set coll. resetPasswordToken v \<noteq> Some tok"
    and u1: "oid u1 = oid u" "resetPasswordToken u1 = Some tok" "resetPasswordExpires u1 = Some x"
    and u2: "oid u2 = oid u" "resetPasswordToken u2 = None"
  shows "findById (updateOne (\<lambda>v. oid v = oid u) (\<lambda>v. u1) coll) (oid u) = Some u1"
    and "t < x \<Longrightarrow>
         findOneByResetToken (updateOne (\<lambda>v. oid v = oid u) (\<lambda>v. u1) coll) tok t = Some u1"
    and "x \<le> t \<Longrightarrow>
         findOneByResetToken (updateOne (\<lambda>v. oid v = oid u) (\<lambda>v. u1) coll) tok t = None"
    and "updateOne (\<lambda>v. oid v = oid u1) (\<lambda>v. u2)
           (updateOne (\<lambda>v. oid v = oid u) (\<lambda>v. u1) coll)
         = updateOne (\<lambda>v. oid v = oid u) (\<lambda>v. u2) coll"
    and "findById (updateOne (\<lambda>v. oid v = oid u) (\<lambda>v. u2) coll) (oid u) = Some u2"
    and "findOneByResetToken (updateOne (\<lambda>v. oid v = oid u) (\<lambda>v. u2) coll) tok t' = None"
proof -
  show "findById (updateOne (\<lambda>v. oid v = oid u) (\<lambda>v. u1) coll) (oid u) = Some u1"
    using mem u1(1) by (rule findById_updateOne)
  show "t < x \<Longrightarrow>
        findOneByResetToken (updateOne (\<lambda>v. oid v = oid u) (\<lambda>v. u1) coll) tok t = Some u1"
    using mem fresh u1(2,3) by (rule findOneByResetToken_hit)
  show "x \<le> t \<Longrightarrow>
        findOneByResetToken (updateOne (\<lambda>v. oid v = oid u) (\<lambda>v. u1) coll) tok t = None"
    using fresh u1(3) by (rule findOneByResetToken_expired)
  show "updateOne (\<lambda>v. oid v = oid u1) (\<lambda>v. u2)
          (updateOne (\<lambda>v. oid v = oid u) (\<lambda>v. u1) coll)
        = updateOne (\<lambda>v. oid v = oid u) (\<lambda>v. u2) coll"
    using u1(1) by (simp add: updateOne_twice)
  show "findById (updateOne (\<lambda>v. oid v = oid u) (\<lambda>v. u2) coll) (oid u) = Some u2"
    using mem u2(1) by (rule findById_updateOne)
  show "findOneByResetToken (updateOne (\<lambda>v. oid v = oid u) (\<lambda>v. u2) coll) tok t' = None"
    using fresh u2(2) by (rule findOneByResetToken_cleared)
qed

text \<open>
  C1. Let \<open>forgotPassword\<close> find a (schema-valid) account, and let the token it draws
  be one that no account of that collection holds yet. Whether or not the email goes out,
  the account then holds the token with the expiry one hour after the call. With that
  token and the account's kind, \<open>resetPassword\<close> (with a new password of at least 6
  characters) succeeds at any time before the expiry; it then leaves both reset fields of
  the account unset, and every later \<open>resetPassword\<close> with the token throws
  \<open>Invalid or expired reset token\<close> (status 400). At the expiry or later, the first
  \<open>resetPassword\<close> throws that error too and changes nothing.
\<close>

theorem reset_token_lifecycle:
  assumes found: "findUserOrProvider s e = (Some a, kind)"
    and valid: "account_errors X a = []"
    and fresh: "Some (randomBytes E0) \<notin> set (resetTokens s kind)"
    and pw: "6 \<le> length pw"
    and s1: "s1 = snd (forgotPassword X E0 s e)"
    and s2: "s2 = snd (resetPassword X E1 s1 (randomBytes E0) pw kind)"
  shows "(\<exists>a1. storedAccount s1 kind (account_id a) = Some a1
              \<and> account_resetPasswordToken a1 = Some (randomBytes E0)
              \<and> account_resetPasswordExpires a1 = Some (now E0 + 3600000))
       \<and> (now E1 < now E0 + 3600000 \<longrightarrow>
            fst (resetPassword X E1 s1 (randomBytes E0) pw kind) = Inr ''Password reset successfully''
          \<and> (\<exists>a2. storedAccount s2 kind (account_id a) = Some a2
                  \<and> account_resetPasswordToken a2 = None
                  \<and> account_resetPasswordExpires a2 = None)
          \<and> (\<forall>E2 pw2. resetPassword X E2 s2 (randomBytes E0) pw2 kind
                         = (Inl (Error ''Invalid or expired reset token'' None), s2)
                     \<and> fst (AuthController_resetPassword X E2 s2 (randomBytes E0) pw2 kind)
                         = (400, messageBody ''Invalid or expired reset token'')))
       \<and> (now E0 + 3600000 \<le> now E3 \<longrightarrow>
            resetPassword X E3 s1 (randomBytes E0) pw3 kind
              = (Inl (Error ''Invalid or expired reset token'' None), s1)
          \<and> fst (AuthController_resetPassword X E3 s1 (randomBytes E0) pw3 kind)
              = (400, messageBody ''Invalid or expired reset token''))"
proof -
  from resolve_cases [OF found] show ?thesis
  proof (elim disjE exE conjE)
    fix u assume a: "a = Regular u" and k: "kind = ''user''"
      and f: "findOneByEmail (users s) e = Some u"
    define u1 where "u1 = u\<lparr>resetPasswordToken := Some (randomBytes E0),
      resetPasswordExpires := Some (now E0 + 3600000), updatedAt := now E0\<rparr>"
    define u2 where "u2 = (preSave X E1 (pw \<noteq> password u1)
      (u1\<lparr>password := pw, resetPasswordToken := None, resetPasswordExpires := None\<rparr>))
      \<lparr>updatedAt := now E1\<rparr>"
    have nk: "kind \<noteq> ''serviceProvider''" using k by simp
    have v: "validateUser X u = []" using valid a by simp
    have v1: "validateUser X u1 = []" using v by (simp add: u1_def validateUser_def)
    have r: "findUserOrProvider s e = (Some (Regular u), kind)" using found a by simp
    have m: "u \<in> set (users s)" using f by (rule findOneByEmail_mem)
    have fr: "\<forall>v\<in>set (users s). resetPasswordToken v \<noteq> Some (randomBytes E0)"
      using fresh k by (force simp: resetTokens_def image_iff)
    have S1: "s1 = s\<lparr>users := updateOne (\<lambda>v. oid v = oid u) (\<lambda>v. u1) (users s)\<rparr>"
      by (simp add: s1 forgotPassword_regular [OF r v] u1_def)
    note L = token_lifecycle_coll [OF m fr, of u1 "now E0 + 3600000" u2]
    have p1: "oid u1 = oid u" "resetPasswordToken u1 = Some (randomBytes E0)"
      "resetPasswordExpires u1 = Some (now E0 + 3600000)"
      by (simp_all add: u1_def)
    have p2: "oid u2 = oid u" "resetPasswordToken u2 = None" "resetPasswordExpires u2 = None"
      by (simp_all add: u2_def u1_def)
    have stored1: "storedAccount s1 kind (account_id a) = Some (Regular u1)"
      using L(1) [OF p1 p2(1,2)] by (simp add: storedAccount_def k a S1)
    have expired: "now E0 + 3600000 \<le> now E3 \<Longrightarrow>
        findOneByResetToken (users s1) (randomBytes E0) (now E3) = None"
      using L(3) [OF p1 p2(1,2)] by (simp add: S1)
    have live: "now E1 < now E0 + 3600000 \<Longrightarrow>
        findOneByResetToken (users s1) (randomBytes E0) (now E1) = Some u1"
      using L(2) [OF p1 p2(1,2)] by (simp add: S1)
    have reset: "now E1 < now E0 + 3600000 \<Longrightarrow>
        resetPassword X E1 s1 (randomBytes E0) pw kind
          = (Inr ''Password reset successfully'',
             s\<lparr>users := updateOne (\<lambda>v. oid v = oid u) (\<lambda>v. u2) (users s)\<rparr>)"
      using resetPassword_match_user [OF nk live v1 pw] L(4) [OF p1 p2(1,2)]
      by (simp add: S1 u2_def)
    have S2: "now E1 < now E0 + 3600000 \<Longrightarrow>
        s2 = s\<lparr>users := updateOne (\<lambda>v. oid v = oid u) (\<lambda>v. u2) (users s)\<rparr>"
      using reset by (simp add: s2)
    have stored2: "now E1 < now E0 + 3600000 \<Longrightarrow>
        storedAccount s2 kind (account_id a) = Some (Regular u2)"
      using L(5) [OF p1 p2(1,2)] S2 by (simp add: storedAccount_def k a)
    have gone: "now E1 < now E0 + 3600000 \<Longrightarrow>
        findOneByResetToken (users s2) (randomBytes E0) (now E2) = None" for E2 :: env
      using L(6) [OF p1 p2(1,2)] S2 by simp
    show ?thesis
      using stored1 p1 p2 reset stored2
        resetPassword_no_match_user [OF nk gone]
        resetPassword_no_match_user [OF nk expired]
      by simp
  next
    fix p assume a: "a = Provider p" and k: "kind = ''serviceProvider''"
      and f: "findOneByEmail (serviceProviders s) e = Some p"
    define u1 where "u1 = p\<lparr>resetPasswordToken := Some (randomBytes E0),
      resetPasswordExpires := Some (now E0 + 3600000), updatedAt := now E0\<rparr>"
    define u2 where "u2 = (preSave X E1 (pw \<noteq> password u1)
      (u1\<lparr>password := pw, resetPasswordToken := None, resetPasswordExpires := None\<rparr>))
      \<lparr>updatedAt := now E1\<rparr>"
    have v: "validateServiceProvider X p = []" using valid a by simp
    have v1: "validateServiceProvider X u1 = []"
      using v by (simp add: u1_def validateServiceProvider_def validateUser_def)
    have r: "findUserOrProvider s e = (Some (Provider p), kind)" using found a by simp
    have m: "p \<in> set (serviceProviders s)" using f by (rule findOneByEmail_mem)
    have fr: "\<forall>v\<in>set (serviceProviders s). resetPasswordToken v \<noteq> Some (randomBytes E0)"
      using fresh k by (force simp: resetTokens_def image_iff)
    have S1: "s1 = s\<lparr>serviceProviders :=
        updateOne (\<lambda>v. oid v = oid p) (\<lambda>v. u1) (serviceProviders s)\<rparr>"
      by (simp add: s1 forgotPassword_provider [OF r v] u1_def)
    note L = token_lifecycle_coll [OF m fr, of u1 "now E0 + 3600000" u2]
    have p1: "oid u1 = oid p" "resetPasswordToken u1 = Some (randomBytes E0)"
      "resetPasswordExpires u1 = Some (now E0 + 3600000)"
      by (simp_all add: u1_def)
    have p2: "oid u2 = oid p" "resetPasswordToken u2 = None" "resetPasswordExpires u2 = None"
      by (simp_all add: u2_def u1_def)
    have stored1: "storedAccount s1 kind (account_id a) = Some (Provider u1)"
      using L(1) [OF p1 p2(1,2)] by (simp add: storedAccount_def k a S1)
    have expired: "now E0 + 3600000 \<le> now E3 \<Longrightarrow>
        findOneByResetToken (serviceProviders s1) (randomBytes E0) (now E3) = None"
      using L(3) [OF p1 p2(1,2)] by (simp add: S1)
    have live: "now E1 < now E0 + 3600000 \<Longrightarrow>
        findOneByResetToken (serviceProviders s1) (randomBytes E0) (now E1) = Some u1"
      using L(2) [OF p1 p2(1,2)] by (simp add: S1)
    have reset: "now E1 < now E0 + 3600000 \<Longrightarrow>
        resetPassword X E1 s1 (randomBytes E0) pw kind
          = (Inr ''Password reset successfully'',
             s\<lparr>serviceProviders :=
                 updateOne (\<lambda>v. oid v = oid p) (\<lambda>v. u2) (serviceProviders s)\<rparr>)"
      using resetPassword_match_provider [OF live v1 pw] L(4) [OF p1 p2(1,2)]
      by (simp add: S1 u2_def k)
    have S2: "now E1 < now E0 + 3600000 \<Longrightarrow>
        s2 = s\<lparr>serviceProviders :=
                 updateOne (\<lambda>v. oid v = oid p) (\<lambda>v. u2) (serviceProviders s)\<rparr>"
      using reset by (simp add: s2)
    have stored2: "now E1 < now E0 + 3600000 \<Longrightarrow>
        storedAccount s2 kind (account_id a) = Some (Provider u2)"
      using L(5) [OF p1 p2(1,2)] S2 by (simp add: storedAccount_def k a)
    have gone: "now E1 < now E0 + 3600000 \<Longrightarrow>
        findOneByResetToken (serviceProviders s2) (randomBytes E0) (now E2) = None" for E2 :: env
      using L(6) [OF p1 p2(1,2)] S2 by simp
    show ?thesis
      using stored1 p1 p2 reset stored2
        resetPassword_no_match_provider [OF gone]
        resetPassword_no_match_provider [OF expired]
      by (simp add: k)
  qed
qed


theorem reset_token_lifecycle_witness:
  "findUserOrProvider demoDb ''a@x.com'' = (Some (Regular alice), ''user'')
   \<and> account_errors demoExt (Regular alice) = []
   \<and> Some (randomBytes demoEnv) \<notin> set (resetTokens demoDb ''user'')
   \<and> 6 \<le> length ''secret2''
   \<and> now (demoEnv\<lparr>now := 2000\<rparr>) < now demoEnv + 3600000
   \<and> now demoEnv + 3600000 \<le> now (demoEnv\<lparr>now := 3601000\<rparr>)
   \<and> fst (resetPassword demoExt (demoEnv\<lparr>now := 2000\<rparr>)
            (snd (forgotPassword demoExt demoEnv demoDb ''a@x.com''))
            (randomBytes demoEnv) ''secret2'' ''user'')
       = Inr ''Password reset successfully''
   \<and> resetPassword demoExt (demoEnv\<lparr>now := 2500\<rparr>)
         (snd (resetPassword demoExt (demoEnv\<lparr>now := 2000\<rparr>)
                (snd (forgotPassword demoExt demoEnv demoDb ''a@x.com''))
                (randomBytes demoEnv) ''secret2'' ''user''))
         (randomBytes demoEnv) ''secret3'' ''user''
       = (Inl (Error ''Invalid or expired reset token'' None),
          snd (resetPassword demoExt (demoEnv\<lparr>now := 2000\<rparr>)
                (snd (forgotPassword demoExt demoEnv demoDb ''a@x.com''))
                (randomBytes demoEnv) ''secret2'' ''user''))
   \<and> resetPassword demoExt (demoEnv\<lparr>now := 3601000\<rparr>)
         (snd (forgotPassword demoExt demoEnv demoDb ''a@x.com''))
         (randomBytes demoEnv) ''secret2'' ''user''
       = (Inl (Error ''Invalid or expired reset token'' None),
          snd (forgotPassword demoExt demoEnv demoDb ''a@x.com''))"
proof -
  have v: "account_errors demoExt (Regular alice) = []" by (simp add: alice_valid)
  have fr: "Some (randomBytes demoEnv) \<notin> set (resetTokens demoDb ''user'')"
    by (simp add: resetTokens_def demoDb_def alice_def)
  have pw: "6 \<le> length ''secret2''" by simp
  have live: "now (demoEnv\<lparr>now := 2000\<rparr>) < now demoEnv + 3600000"
    by (simp add: demoEnv_def)
  have late: "now demoEnv + 3600000 \<le> now (demoEnv\<lparr>now := 3601000\<rparr>)"
    by (simp add: demoEnv_def)
  note th = reset_token_lifecycle [OF resolve_alice v fr pw refl refl,
      where ?E1.0 = "demoEnv\<lparr>now := 2000\<rparr>" and ?E3.0 = "demoEnv\<lparr>now := 3601000\<rparr>"
        and ?pw3.0 = "''secret2''"]
  show ?thesis using th resolve_alice v fr pw live late by blast
qed

subsection \<open>Registration\<close>

lemma findOneByEmail_None:
  "emailSetter e \<notin> email ` set coll \<Longrightarrow> findOneByEmail coll e = None"
  by (force simp: findOneByEmail_def find_None_iff)

lemma findOneByEmail_Some:
  "emailSetter e \<in> email ` set coll \<Longrightarrow> \<exists>u. findOneByEmail coll e = Some u"
  by (cases "findOneByEmail coll e") (force simp: findOneByEmail_def find_None_iff)+

lemma insertOne_fresh:
  "oid u \<notin> oid ` set coll \<Longrightarrow> email u \<notin> email ` set coll \<Longrightarrow> insertOne u coll = Inr (coll @ [u])"
  by (auto simp: insertOne_def list_ex_iff image_iff)

lemma preSave_email [simp]: "email (preSave X E m u) = email u"
  by (simp add: preSave_def)

lemma newUser_keys [simp]:
  "oid (newUser E d) = newObjectId E" "email (newUser E d) = emailSetter (data_email d)"
  by (simp_all add: newUser_def)

lemma newServiceProvider_keys [simp]:
  "oid (newServiceProvider E d) = newObjectId E"
  "email (newServiceProvider E d) = emailSetter (data_email d)"
  by (simp_all add: newServiceProvider_def)

lemma registerUser_success:
  assumes "validateUser X (newUser E d) = []"
    and "emailSetter (data_email d) \<notin> email ` set (users s)"
    and "newObjectId E \<notin> oid ` set (users s)"
  shows "registerUser X E s d =
           (Inr (''User registered successfully'', newObjectId E),
            s\<lparr>users := users s @ [(preSave X E True (newUser E d))\<lparr>updatedAt := now E\<rparr>]\<rparr>)"
  using assms
  by (simp add: registerUser_def findOneByEmail_None User_save_def save_def insertOne_fresh
      Let_def)

lemma registerServiceProvider_success:
  assumes "validateServiceProvider X (newServiceProvider E d) = []"
    and "emailSetter (data_email d) \<notin> email ` set (serviceProviders s)"
    and "newObjectId E \<notin> oid ` set (serviceProviders s)"
  shows "registerServiceProvider X E s d =
           (Inr (''Service provider registered successfully'', newObjectId E),
            s\<lparr>serviceProviders := serviceProviders s @
                 [(preSave X E True (newServiceProvider E d))\<lparr>updatedAt := now E\<rparr>]\<rparr>)"
  using assms
  by (simp add: registerServiceProvider_def findOneByEmail_None ServiceProvider_save_def save_def
      insertOne_fresh Let_def)

lemma registerUser_duplicate:
  assumes "emailSetter (data_email d) \<in> email ` set (users s)"
  shows "registerUser X E s d = (Inl (Error ''User with this email already exists'' None), s)"
  using findOneByEmail_Some [OF assms] by (auto simp: registerUser_def)

lemma registerServiceProvider_duplicate:
  assumes "emailSetter (data_email d) \<in> email ` set (serviceProviders s)"
  shows "registerServiceProvider X E s d =
           (Inl (Error ''Service provider with this email already exists'' None), s)"
  using findOneByEmail_Some [OF assms] by (auto simp: registerServiceProvider_def)

lemma includes_already_exists:
  "str_includes ''User with this email already exists'' ''already exists''"
  "str_includes ''Service provider with this email already exists'' ''already exists''"
  by (simp_all add: str_includes_def sublist_code(3))

lemma registerUser_mail:
  "registerUser X (E\<lparr>sendMail := b\<rparr>) s d = registerUser X E s d"
  by (simp add: registerUser_def newUser_def User_save_def save_def preSave_def
      sendWelcomeEmail_def sendEmail_def split: option.split list.split sum.split)

lemma registerServiceProvider_mail:
  "registerServiceProvider X (E\<lparr>sendMail := b\<rparr>) s d = registerServiceProvider X E s d"
  by (simp add: registerServiceProvider_def newServiceProvider_def ServiceProvider_save_def
      save_def preSave_def sendWelcomeEmail_def sendEmail_def
      split: option.split list.split sum.split)


lemma registered_email_user:
  assumes "validateUser X (newUser E d) = []"
    and "emailSetter (data_email d) \<notin> email ` set (users s)"
    and "newObjectId E \<notin> oid ` set (users s)"
  shows "emailSetter (data_email d) \<in> email ` set (users (snd (registerUser X E s d)))"
    and "serviceProviders (snd (registerUser X E s d)) = serviceProviders s"
  by (simp_all add: registerUser_success [OF assms])

lemma registered_email_provider:
  assumes "validateServiceProvider X (newServiceProvider E d) = []"
    and "emailSetter (data_email d) \<notin> email ` set (serviceProviders s)"
    and "newObjectId E \<notin> oid ` set (serviceProviders s)"
  shows "emailSetter (data_email d) \<in> email ` set (serviceProviders (snd (registerServiceProvider X E s d)))"
    and "users (snd (registerServiceProvider X E s d)) = users s"
  by (simp_all add: registerServiceProvider_success [OF assms])

text \<open>
  C4. Let \<open>e\<close> be an email that neither collection has, with valid registration data
  for it and fresh ids. Registering \<open>e\<close> as a user succeeds, and a second user
  registration of \<open>e\<close> throws \<open>User with this email already exists\<close> (status 400)
  and changes nothing; the same holds for two service provider registrations. After the
  user registration the service provider registration of \<open>e\<close> still succeeds, and the
  other way round: each registration looks at its own collection only.
\<close>

theorem duplicate_registration:
  assumes free_u: "emailSetter e \<notin> email ` set (users s)"
    and free_p: "emailSetter e \<notin> email ` set (serviceProviders s)"
    and d: "data_email d = e" "validateUser X (newUser E1 d) = []"
           "newObjectId E1 \<notin> oid ` set (users s)"
    and pd: "data_email pd = e" "validateServiceProvider X (newServiceProvider E2 pd) = []"
            "newObjectId E2 \<notin> oid ` set (serviceProviders s)"
    and again: "data_email d' = e" "data_email pd' = e"
  shows "fst (registerUser X E1 s d) = Inr (''User registered successfully'', newObjectId E1)
       \<and> registerUser X E3 (snd (registerUser X E1 s d)) d'
           = (Inl (Error ''User with this email already exists'' None), snd (registerUser X E1 s d))
       \<and> fst (AuthController_registerUser X E3 (snd (registerUser X E1 s d)) d')
           = (400, messageBody ''User with this email already exists'')
       \<and> fst (registerServiceProvider X E2 s pd)
           = Inr (''Service provider registered successfully'', newObjectId E2)
       \<and> registerServiceProvider X E3 (snd (registerServiceProvider X E2 s pd)) pd'
           = (Inl (Error ''Service provider with this email already exists'' None),
              snd (registerServiceProvider X E2 s pd))
       \<and> fst (AuthController_registerServiceProvider X E3
                 (snd (registerServiceProvider X E2 s pd)) pd')
           = (400, messageBody ''Service provider with this email already exists'')
       \<and> fst (registerServiceProvider X E2 (snd (registerUser X E1 s d)) pd)
           = Inr (''Service provider registered successfully'', newObjectId E2)
       \<and> fst (registerUser X E1 (snd (registerServiceProvider X E2 s pd)) d)
           = Inr (''User registered successfully'', newObjectId E1)"
proof -
  have fu: "emailSetter (data_email d) \<notin> email ` set (users s)" using free_u d(1) by simp
  have fp: "emailSetter (data_email pd) \<notin> email ` set (serviceProviders s)"
    using free_p pd(1) by simp
  note U = registerUser_success [OF d(2) fu d(3)]
  note P = registerServiceProvider_success [OF pd(2) fp pd(3)]
  note RU = registered_email_user [OF d(2) fu d(3)]
  note RP = registered_email_provider [OF pd(2) fp pd(3)]
  have a1: "fst (registerUser X E1 s d) = Inr (''User registered successfully'', newObjectId E1)"
    by (simp add: U)
  have du: "emailSetter (data_email d') \<in> email ` set (users (snd (registerUser X E1 s d)))"
    using RU(1) d(1) again(1) by simp
  have a2: "registerUser X E3 (snd (registerUser X E1 s d)) d'
      = (Inl (Error ''User with this email already exists'' None), snd (registerUser X E1 s d))"
    using du by (rule registerUser_duplicate)
  have a3: "fst (AuthController_registerUser X E3 (snd (registerUser X E1 s d)) d')
      = (400, messageBody ''User with this email already exists'')"
    by (simp add: AuthController_registerUser_def a2 includes_already_exists)
  have b1: "fst (registerServiceProvider X E2 s pd)
      = Inr (''Service provider registered successfully'', newObjectId E2)"
    by (simp add: P)
  have dp: "emailSetter (data_email pd')
      \<in> email ` set (serviceProviders (snd (registerServiceProvider X E2 s pd)))"
    using RP(1) pd(1) again(2) by simp
  have b2: "registerServiceProvider X E3 (snd (registerServiceProvider X E2 s pd)) pd'
      = (Inl (Error ''Service provider with this email already exists'' None),
         snd (registerServiceProvider X E2 s pd))"
    using dp by (rule registerServiceProvider_duplicate)
  have b3: "fst (AuthController_registerServiceProvider X E3
                 (snd (registerServiceProvider X E2 s pd)) pd')
      = (400, messageBody ''Service provider with this email already exists'')"
    by (simp add: AuthController_registerServiceProvider_def b2 includes_already_exists)
  have c1: "fst (registerServiceProvider X E2 (snd (registerUser X E1 s d)) pd)
      = Inr (''Service provider registered successfully'', newObjectId E2)"
    using registerServiceProvider_success [of X E2 pd "snd (registerUser X E1 s d)"] pd(2,3) fp
    by (simp add: RU(2))
  have c2: "fst (registerUser X E1 (snd (registerServiceProvider X E2 s pd)) d)
      = Inr (''User registered successfully'', newObjectId E1)"
    using registerUser_success [of X E1 d "snd (registerServiceProvider X E2 s pd)"] d(2,3) fu
    by (simp add: RP(2))
  show ?thesis using a1 a2 a3 b1 b2 b3 c1 c2 by blast
qed

lemma emailSetter_carol: "emailSetter ''C@x.com '' = ''c@x.com''"
  by code_simp

lemma carol_valid: "validateUser demoExt (newUser demoEnv carolData) = []"
  by (simp add: validateUser_def v_firstName_def v_lastName_def v_email_def v_password_def
      v_phoneNumber_def v_address_def v_postcode_def checkPath_def newUser_def carolData_def
      emailSetter_carol trim_def isWhiteSpace_def demoExt_def)

lemma carol_provider_valid:
  "validateServiceProvider demoExt (newServiceProvider demoEnv carolProviderData) = []"
  by (simp add: validateServiceProvider_def validateUser_def v_firstName_def v_lastName_def
      v_email_def v_password_def v_phoneNumber_def v_address_def v_postcode_def
      v_expertise_def v_businessBio_def EXPERTISE_CATEGORIES_def checkPath_def
      newServiceProvider_def carolProviderData_def emailSetter_carol trim_def isWhiteSpace_def
      demoExt_def)

theorem duplicate_registration_witness:
  "emailSetter ''C@x.com '' \<notin> email ` set (users demoDb)
   \<and> emailSetter ''C@x.com '' \<notin> email ` set (serviceProviders demoDb)
   \<and> data_email carolData = ''C@x.com ''
   \<and> validateUser demoExt (newUser demoEnv carolData) = []
   \<and> newObjectId demoEnv \<notin> oid ` set (users demoDb)
   \<and> data_email carolProviderData = ''C@x.com ''
   \<and> validateServiceProvider demoExt (newServiceProvider demoEnv carolProviderData) = []
   \<and> newObjectId demoEnv \<notin> oid ` set (serviceProviders demoDb)
   \<and> fst (registerUser demoExt demoEnv demoDb carolData)
       = Inr (''User registered successfully'', newObjectId demoEnv)
   \<and> fst (AuthController_registerUser demoExt demoEnv
             (snd (registerUser demoExt demoEnv demoDb carolData)) carolData)
       = (400, messageBody ''User with this email already exists'')
   \<and> fst (registerServiceProvider demoExt demoEnv
             (snd (registerUser demoExt demoEnv demoDb carolData)) carolProviderData)
       = Inr (''Service provider registered successfully'', newObjectId demoEnv)"
proof -
  have fu: "emailSetter ''C@x.com '' \<notin> email ` set (users demoDb)"
    by (simp add: emailSetter_carol demoDb_def alice_def)
  have fp: "emailSetter ''C@x.com '' \<notin> email ` set (serviceProviders demoDb)"
    by (simp add: emailSetter_carol demoDb_def bob_def)
  have d1: "data_email carolData = ''C@x.com ''" by (simp add: carolData_def)
  have d3: "newObjectId demoEnv \<notin> oid ` set (users demoDb)"
    by (simp add: demoEnv_def demoDb_def alice_def)
  have p1: "data_email carolProviderData = ''C@x.com ''" by (simp add: carolProviderData_def)
  have p3: "newObjectId demoEnv \<notin> oid ` set (serviceProviders demoDb)"
    by (simp add: demoEnv_def demoDb_def bob_def)
  note th = duplicate_registration [OF fu fp d1 carol_valid d3 p1 carol_provider_valid p3 d1 p1,
      where ?E3.0 = demoEnv]
  show ?thesis using th fu fp d1 carol_valid d3 p1 carol_provider_valid p3 by blast
qed

subsection \<open>Notifications\<close>

lemma find_first:
  "\<forall>v\<in>set front. \<not> P v \<Longrightarrow> P x \<Longrightarrow> find P (front @ x # back) = Some x"
  by (induction front) auto

lemma find_none: "\<forall>v\<in>set xs. \<not> P v \<Longrightarrow> find P xs = None"
  by (simp add: find_None_iff)

lemma forgotPassword_500:
  "fst (AuthController_forgotPassword X E s e) = (500, messageBody ''Error sending forgot password email'')"
  if "fst (forgotPassword X E s e)
        = Inl (Error ''Email service unavailable. Please contact support for password reset.'' None)"
  using that not_includes_no_account
  by (cases "forgotPassword X E s e") (simp add: AuthController_forgotPassword_def)

lemma findById_inserted:
  "oid u \<notin> oid ` set coll \<Longrightarrow> findById (coll @ [u]) (oid u) = Some u"
  unfolding findById_def by (rule find_first) (auto simp: image_iff)

lemma registerUser_stored:
  assumes "validateUser X (newUser E d) = []"
    and "emailSetter (data_email d) \<notin> email ` set (users s)"
    and "newObjectId E \<notin> oid ` set (users s)"
  shows "fst (registerUser X E s d) = Inr (''User registered successfully'', newObjectId E)"
    and "findById (users (snd (registerUser X E s d))) (newObjectId E)
           = Some ((preSave X E True (newUser E d))\<lparr>updatedAt := now E\<rparr>)"
    and "fst (AuthController_registerUser X E s d)
           = (201, JObj [(''message'', JStr ''User registered successfully''),
                         (''userId'', JNum (int (newObjectId E)))])"
proof -
  note U = registerUser_success [OF assms]
  show "fst (registerUser X E s d) = Inr (''User registered successfully'', newObjectId E)"
    by (simp add: U)
  have "findById (users s @ [(preSave X E True (newUser E d))\<lparr>updatedAt := now E\<rparr>])
          (oid ((preSave X E True (newUser E d))\<lparr>updatedAt := now E\<rparr>))
        = Some ((preSave X E True (newUser E d))\<lparr>updatedAt := now E\<rparr>)"
    by (rule findById_inserted) (use assms(3) in simp)
  then show "findById (users (snd (registerUser X E s d))) (newObjectId E)
           = Some ((preSave X E True (newUser E d))\<lparr>updatedAt := now E\<rparr>)"
    by (simp add: U)
  show "fst (AuthController_registerUser X E s d)
           = (201, JObj [(''message'', JStr ''User registered successfully''),
                         (''userId'', JNum (int (newObjectId E)))])"
    by (simp add: AuthController_registerUser_def U)
qed

lemma registerServiceProvider_stored:
  assumes "validateServiceProvider X (newServiceProvider E d) = []"
    and "emailSetter (data_email d) \<notin> email ` set (serviceProviders s)"
    and "newObjectId E \<notin> oid ` set (serviceProviders s)"
  shows "fst (registerServiceProvider X E s d)
           = Inr (''Service provider registered successfully'', newObjectId E)"
    and "findById (serviceProviders (snd (registerServiceProvider X E s d))) (newObjectId E)
           = Some ((preSave X E True (newServiceProvider E d))\<lparr>updatedAt := now E\<rparr>)"
    and "fst (AuthController_registerServiceProvider X E s d)
           = (201, JObj [(''message'', JStr ''Service provider registered successfully''),
                         (''serviceProviderId'', JNum (int (newObjectId E)))])"
proof -
  note P = registerServiceProvider_success [OF assms]
  show "fst (registerServiceProvider X E s d)
           = Inr (''Service provider registered successfully'', newObjectId E)"
    by (simp add: P)
  have "findById (serviceProviders s @
            [(preSave X E True (newServiceProvider E d))\<lparr>updatedAt := now E\<rparr>])
          (oid ((preSave X E True (newServiceProvider E d))\<lparr>updatedAt := now E\<rparr>))
        = Some ((preSave X E True (newServiceProvider E d))\<lparr>updatedAt := now E\<rparr>)"
    by (rule findById_inserted) (use assms(3) in simp)
  then show "findById (serviceProviders (snd (registerServiceProvider X E s d))) (newObjectId E)
           = Some ((preSave X E True (newServiceProvider E d))\<lparr>updatedAt := now E\<rparr>)"
    by (simp add: P)
  show "fst (AuthController_registerServiceProvider X E s d)
           = (201, JObj [(''message'', JStr ''Service provider registered successfully''),
                         (''serviceProviderId'', JNum (int (newObjectId E)))])"
    by (simp add: AuthController_registerServiceProvider_def P)
qed

lemma forgotPassword_mail_failure:
  assumes "\<not> sendMail E" "findUserOrProvider s e = (Some a, kind)" "account_errors X a = []"
  shows "fst (forgotPassword X E s e)
      = Inl (Error ''Email service unavailable. Please contact support for password reset.'' None)"
  using resolve_cases [OF assms(2)] assms
  by (auto simp: forgotPassword_regular forgotPassword_provider)

text \<open>
  C8. A registration, of a user or of a service provider, from any state and with any
  data, returns the same result and leaves the same state whether the mail transport
  works or fails, and gets the same response. So with a failing transport, valid data,
  a new email and a fresh id, it succeeds with the new id (status 201) and the account
  of that id is stored. \<open>forgotPassword\<close> for an existing (schema-valid) account
  with a failing transport throws the email error instead, and the caller gets
  status 500. Each part stands under its own premises.
\<close>

theorem notification_failures:
  "registerUser X E s d = registerUser X (E\<lparr>sendMail := True\<rparr>) s d
   \<and> AuthController_registerUser X E s d = AuthController_registerUser X (E\<lparr>sendMail := True\<rparr>) s d
   \<and> registerServiceProvider X E s pd = registerServiceProvider X (E\<lparr>sendMail := True\<rparr>) s pd
   \<and> AuthController_registerServiceProvider X E s pd
       = AuthController_registerServiceProvider X (E\<lparr>sendMail := True\<rparr>) s pd
   \<and> (\<not> sendMail E \<and> validateUser X (newUser E d) = []
        \<and> emailSetter (data_email d) \<notin> email ` set (users s)
        \<and> newObjectId E \<notin> oid ` set (users s) \<longrightarrow>
          fst (registerUser X E s d) = Inr (''User registered successfully'', newObjectId E)
        \<and> findById (users (snd (registerUser X E s d))) (newObjectId E)
            = Some ((preSave X E True (newUser E d))\<lparr>updatedAt := now E\<rparr>)
        \<and> fst (AuthController_registerUser X E s d)
            = (201, JObj [(''message'', JStr ''User registered successfully''),
                          (''userId'', JNum (int (newObjectId E)))]))
   \<and> (\<not> sendMail E \<and> validateServiceProvider X (newServiceProvider E pd) = []
        \<and> emailSetter (data_email pd) \<notin> email ` set (serviceProviders s)
        \<and> newObjectId E \<notin> oid ` set (serviceProviders s) \<longrightarrow>
          fst (registerServiceProvider X E s pd)
            = Inr (''Service provider registered successfully'', newObjectId E)
        \<and> findById (serviceProviders (snd (registerServiceProvider X E s pd))) (newObjectId E)
            = Some ((preSave X E True (newServiceProvider E pd))\<lparr>updatedAt := now E\<rparr>)
        \<and> fst (AuthController_registerServiceProvider X E s pd)
            = (201, JObj [(''message'', JStr ''Service provider registered successfully''),
                          (''serviceProviderId'', JNum (int (newObjectId E)))]))
   \<and> (\<not> sendMail E' \<and> findUserOrProvider s' e = (Some a, kind) \<and> account_errors X a = [] \<longrightarrow>
          fst (forgotPassword X E' s' e)
            = Inl (Error ''Email service unavailable. Please contact support for password reset.'' None)
        \<and> fst (AuthController_forgotPassword X E' s' e)
            = (500, messageBody ''Error sending forgot password email''))"
proof -
  have m1: "registerUser X E s d = registerUser X (E\<lparr>sendMail := True\<rparr>) s d"
    by (simp add: registerUser_mail)
  have m2: "registerServiceProvider X E s pd = registerServiceProvider X (E\<lparr>sendMail := True\<rparr>) s pd"
    by (simp add: registerServiceProvider_mail)
  have c1: "AuthController_registerUser X E s d
      = AuthController_registerUser X (E\<lparr>sendMail := True\<rparr>) s d"
    by (simp add: AuthController_registerUser_def registerUser_mail)
  have c2: "AuthController_registerServiceProvider X E s pd
      = AuthController_registerServiceProvider X (E\<lparr>sendMail := True\<rparr>) s pd"
    by (simp add: AuthController_registerServiceProvider_def registerServiceProvider_mail)
  show ?thesis
    using m1 m2 c1 c2 registerUser_stored [of X E d s] registerServiceProvider_stored [of X E pd s]
      forgotPassword_mail_failure [of E' s' e a kind X]
      forgotPassword_500 [of X E' s' e]
    by blast
qed


theorem notification_failures_witness:
  "\<not> sendMail (demoEnv\<lparr>sendMail := False\<rparr>)
   \<and> validateUser demoExt (newUser (demoEnv\<lparr>sendMail := False\<rparr>) carolData) = []
   \<and> emailSetter (data_email carolData) \<notin> email ` set (users emptyDb)
   \<and> newObjectId (demoEnv\<lparr>sendMail := False\<rparr>) \<notin> oid ` set (users emptyDb)
   \<and> validateServiceProvider demoExt
        (newServiceProvider (demoEnv\<lparr>sendMail := False\<rparr>) carolProviderData) = []
   \<and> emailSetter (data_email carolProviderData) \<notin> email ` set (serviceProviders emptyDb)
   \<and> newObjectId (demoEnv\<lparr>sendMail := False\<rparr>) \<notin> oid ` set (serviceProviders emptyDb)
   \<and> findUserOrProvider demoDb ''a@x.com'' = (Some (Regular alice), ''user'')
   \<and> account_errors demoExt (Regular alice) = []
   \<and> fst (registerUser demoExt (demoEnv\<lparr>sendMail := False\<rparr>) emptyDb carolData)
       = Inr (''User registered successfully'', newObjectId (demoEnv\<lparr>sendMail := False\<rparr>))
   \<and> findById (users (snd (registerUser demoExt (demoEnv\<lparr>sendMail := False\<rparr>) emptyDb carolData)))
         (newObjectId (demoEnv\<lparr>sendMail := False\<rparr>))
       = Some ((preSave demoExt (demoEnv\<lparr>sendMail := False\<rparr>) True
                  (newUser (demoEnv\<lparr>sendMail := False\<rparr>) carolData))
               \<lparr>updatedAt := now (demoEnv\<lparr>sendMail := False\<rparr>)\<rparr>)
   \<and> fst (registerServiceProvider demoExt (demoEnv\<lparr>sendMail := False\<rparr>) emptyDb carolProviderData)
       = Inr (''Service provider registered successfully'',
              newObjectId (demoEnv\<lparr>sendMail := False\<rparr>))
   \<and> fst (forgotPassword demoExt (demoEnv\<lparr>sendMail := False\<rparr>) demoDb ''a@x.com'')
       = Inl (Error ''Email service unavailable. Please contact support for password reset.'' None)
   \<and> fst (AuthController_forgotPassword demoExt (demoEnv\<lparr>sendMail := False\<rparr>) demoDb ''a@x.com'')
       = (500, messageBody ''Error sending forgot password email'')"
proof -
  have n: "\<not> sendMail (demoEnv\<lparr>sendMail := False\<rparr>)" by simp
  have v: "account_errors demoExt (Regular alice) = []" by (simp add: alice_valid)
  have r1: "validateUser demoExt (newUser (demoEnv\<lparr>sendMail := False\<rparr>) carolData) = []"
    using carol_valid by (simp add: newUser_def)
  have r2: "emailSetter (data_email carolData) \<notin> email ` set (users emptyDb)"
    by (simp add: emptyDb_def)
  have r3: "newObjectId (demoEnv\<lparr>sendMail := False\<rparr>) \<notin> oid ` set (users emptyDb)"
    by (simp add: emptyDb_def)
  have p1: "validateServiceProvider demoExt
        (newServiceProvider (demoEnv\<lparr>sendMail := False\<rparr>) carolProviderData) = []"
    using carol_provider_valid by (simp add: newServiceProvider_def)
  have p2: "emailSetter (data_email carolProviderData) \<notin> email ` set (serviceProviders emptyDb)"
    by (simp add: emptyDb_def)
  have p3: "newObjectId (demoEnv\<lparr>sendMail := False\<rparr>) \<notin> oid ` set (serviceProviders emptyDb)"
    by (simp add: emptyDb_def)
  note th = notification_failures [of demoExt "demoEnv\<lparr>sendMail := False\<rparr>" emptyDb carolData
      carolProviderData "demoEnv\<lparr>sendMail := False\<rparr>" demoDb "''a@x.com''" "Regular alice"
      "''user''"]
  show ?thesis using th n v r1 r2 r3 p1 p2 p3 resolve_alice by blast
qed

subsection \<open>Account resolution\<close>

text \<open>
  C7. Resolution by email (\<open>login\<close>, \<open>forgotPassword\<close>) and by id (\<open>auth\<close>),
  each case under its own premises. When the users collection has a match, its first
  match is returned, tagged \<open>user\<close>, whatever the service providers collection
  holds (a provider with the same key included). When the users collection has no match,
  the first matching service provider is returned, tagged \<open>serviceProvider\<close>. When
  neither has one, nothing is found. A login reports the resolved account under its tag,
  or throws when the password does not compare.
\<close>

theorem resolver_probes_users_first:
  "(users s = us1 @ u # us2 \<and> (\<forall>v\<in>set us1. email v \<noteq> emailSetter e)
      \<and> email u = emailSetter e \<longrightarrow>
        findUserOrProvider s e = (Some (Regular u), ''user'')
      \<and> login X E s e pw
          = (if comparePassword X u pw
             then Inr (JObj [(''token'', JStr (generateToken X E (oid u))),
                             (''userType'', JStr ''user''), (''user'', User_toJSON u)])
             else Inl (Error ''Invalid email or password'' None)))
   \<and> ((\<forall>v\<in>set (users s'). email v \<noteq> emailSetter e')
      \<and> serviceProviders s' = ps1 @ p # ps2 \<and> (\<forall>v\<in>set ps1. email v \<noteq> emailSetter e')
      \<and> email p = emailSetter e' \<longrightarrow>
        findUserOrProvider s' e' = (Some (Provider p), ''serviceProvider'')
      \<and> login X E s' e' pw'
          = (if comparePassword X p pw'
             then Inr (JObj [(''token'', JStr (generateToken X E (oid p))),
                             (''userType'', JStr ''serviceProvider''),
                             (''serviceProvider'', ServiceProvider_toJSON p)])
             else Inl (Error ''Invalid email or password'' None)))
   \<and> ((\<forall>v\<in>set (users s''). email v \<noteq> emailSetter e'')
      \<and> (\<forall>v\<in>set (serviceProviders s''). email v \<noteq> emailSetter e'') \<longrightarrow>
        findUserOrProvider s'' e'' = (None, ''serviceProvider''))
   \<and> (token \<noteq> [] \<and> jwt_verify X token (now E) = Inr i
      \<and> users s = ui1 @ ui # ui2 \<and> (\<forall>v\<in>set ui1. oid v \<noteq> i) \<and> oid ui = i \<longrightarrow>
        auth X E s (Some (''Bearer '' @ token)) = Inr (Regular ui, ''user'', i))
   \<and> (token' \<noteq> [] \<and> jwt_verify X token' (now E) = Inr i'
      \<and> (\<forall>v\<in>set (users s'). oid v \<noteq> i')
      \<and> serviceProviders s' = pi1 @ pj # pi2 \<and> (\<forall>v\<in>set pi1. oid v \<noteq> i') \<and> oid pj = i' \<longrightarrow>
        auth X E s' (Some (''Bearer '' @ token')) = Inr (Provider pj, ''serviceProvider'', i'))
   \<and> (token'' \<noteq> [] \<and> jwt_verify X token'' (now E) = Inr i''
      \<and> (\<forall>v\<in>set (users s''). oid v \<noteq> i'')
      \<and> (\<forall>v\<in>set (serviceProviders s''). oid v \<noteq> i'') \<longrightarrow>
        auth X E s'' (Some (''Bearer '' @ token'')) = Inl (401, ''Invalid token. User not found.''))"
proof (intro conjI impI; elim conjE)
  assume a: "users s = us1 @ u # us2" "\<forall>v\<in>set us1. email v \<noteq> emailSetter e"
    "email u = emailSetter e"
  have fu: "findOneByEmail (users s) e = Some u"
    unfolding findOneByEmail_def a(1) using a(2,3) by (rule find_first)
  show r: "findUserOrProvider s e = (Some (Regular u), ''user'')"
    by (simp add: findUserOrProvider_def fu)
  show "login X E s e pw
      = (if comparePassword X u pw
         then Inr (JObj [(''token'', JStr (generateToken X E (oid u))),
                         (''userType'', JStr ''user''), (''user'', User_toJSON u)])
         else Inl (Error ''Invalid email or password'' None))"
    by (simp add: login_def r)
next
  assume a: "\<forall>v\<in>set (users s'). email v \<noteq> emailSetter e'"
    "serviceProviders s' = ps1 @ p # ps2" "\<forall>v\<in>set ps1. email v \<noteq> emailSetter e'"
    "email p = emailSetter e'"
  have fn: "findOneByEmail (users s') e' = None"
    unfolding findOneByEmail_def using a(1) by (rule find_none)
  have fp: "findOneByEmail (serviceProviders s') e' = Some p"
    unfolding findOneByEmail_def a(2) using a(3,4) by (rule find_first)
  show r: "findUserOrProvider s' e' = (Some (Provider p), ''serviceProvider'')"
    by (simp add: findUserOrProvider_def fn fp)
  show "login X E s' e' pw'
      = (if comparePassword X p pw'
         then Inr (JObj [(''token'', JStr (generateToken X E (oid p))),
                         (''userType'', JStr ''serviceProvider''),
                         (''serviceProvider'', ServiceProvider_toJSON p)])
         else Inl (Error ''Invalid email or password'' None))"
    by (simp add: login_def r)
next
  assume a: "\<forall>v\<in>set (users s''). email v \<noteq> emailSetter e''"
    "\<forall>v\<in>set (serviceProviders s''). email v \<noteq> emailSetter e''"
  have fn: "findOneByEmail (users s'') e'' = None"
    unfolding findOneByEmail_def using a(1) by (rule find_none)
  have fp: "findOneByEmail (serviceProviders s'') e'' = None"
    unfolding findOneByEmail_def using a(2) by (rule find_none)
  show "findUserOrProvider s'' e'' = (None, ''serviceProvider'')"
    by (simp add: findUserOrProvider_def fn fp)
next
  assume a: "token \<noteq> []" "jwt_verify X token (now E) = Inr i"
    "users s = ui1 @ ui # ui2" "\<forall>v\<in>set ui1. oid v \<noteq> i" "oid ui = i"
  have iu: "findById (users s) i = Some ui"
    unfolding findById_def a(3) using a(4,5) by (rule find_first)
  show "auth X E s (Some (''Bearer '' @ token)) = Inr (Regular ui, ''user'', i)"
    using a(1,2) by (simp add: auth_def iu)
next
  assume a: "token' \<noteq> []" "jwt_verify X token' (now E) = Inr i'"
    "\<forall>v\<in>set (users s'). oid v \<noteq> i'"
    "serviceProviders s' = pi1 @ pj # pi2" "\<forall>v\<in>set pi1. oid v \<noteq> i'" "oid pj = i'"
  have inn: "findById (users s') i' = None"
    unfolding findById_def using a(3) by (rule find_none)
  have ip: "findById (serviceProviders s') i' = Some pj"
    unfolding findById_def a(4) using a(5,6) by (rule find_first)
  show "auth X E s' (Some (''Bearer '' @ token')) = Inr (Provider pj, ''serviceProvider'', i')"
    using a(1,2) by (simp add: auth_def inn ip)
next
  assume a: "token'' \<noteq> []" "jwt_verify X token'' (now E) = Inr i''"
    "\<forall>v\<in>set (users s''). oid v \<noteq> i''" "\<forall>v\<in>set (serviceProviders s''). oid v \<noteq> i''"
  have inn: "findById (users s'') i'' = None"
    unfolding findById_def using a(3) by (rule find_none)
  have ip: "findById (serviceProviders s'') i'' = None"
    unfolding findById_def using a(4) by (rule find_none)
  show "auth X E s'' (Some (''Bearer '' @ token'')) = Inl (401, ''Invalid token. User not found.'')"
    using a(1,2) by (simp add: auth_def inn ip)
qed


lemma emailSetter_bx: "emailSetter ''b@x.com'' = ''b@x.com''"
  by code_simp

theorem resolver_probes_users_first_witness:
  "users tieDb = [] @ alice # []
   \<and> email alice = emailSetter ''a@x.com''
   \<and> serviceProviders tieDb = [twin]
   \<and> email twin = emailSetter ''a@x.com''
   \<and> oid twin = oid alice
   \<and> comparePassword demoExt alice ''secret1''
   \<and> serviceProviders sharedDb = [twin] @ bob # []
   \<and> email bob = emailSetter ''b@x.com''
   \<and> comparePassword demoExt bob ''secret2''
   \<and> ''jwt.i'' \<noteq> [] \<and> jwt_verify demoExt ''jwt.i'' (now demoEnv) = Inr 1
   \<and> oid alice = 1
   \<and> ''jwt.ii'' \<noteq> [] \<and> jwt_verify demoExt ''jwt.ii'' (now demoEnv) = Inr 2
   \<and> oid bob = 2
   \<and> ''jwt.iii'' \<noteq> [] \<and> jwt_verify demoExt ''jwt.iii'' (now demoEnv) = Inr 3
   \<and> findUserOrProvider tieDb ''a@x.com'' = (Some (Regular alice), ''user'')
   \<and> login demoExt demoEnv tieDb ''a@x.com'' ''secret1''
       = Inr (JObj [(''token'', JStr (generateToken demoExt demoEnv (oid alice))),
                    (''userType'', JStr ''user''), (''user'', User_toJSON alice)])
   \<and> findUserOrProvider sharedDb ''b@x.com'' = (Some (Provider bob), ''serviceProvider'')
   \<and> login demoExt demoEnv sharedDb ''b@x.com'' ''secret2''
       = Inr (JObj [(''token'', JStr (generateToken demoExt demoEnv (oid bob))),
                    (''userType'', JStr ''serviceProvider''),
                    (''serviceProvider'', ServiceProvider_toJSON bob)])
   \<and> findUserOrProvider demoDb ''z@x.com'' = (None, ''serviceProvider'')
   \<and> auth demoExt demoEnv tieDb (Some (''Bearer '' @ ''jwt.i'')) = Inr (Regular alice, ''user'', 1)
   \<and> auth demoExt demoEnv sharedDb (Some (''Bearer '' @ ''jwt.ii''))
       = Inr (Provider bob, ''serviceProvider'', 2)
   \<and> auth demoExt demoEnv demoDb (Some (''Bearer '' @ ''jwt.iii''))
       = Inl (401, ''Invalid token. User not found.'')"
proof -
  have u1: "users tieDb = [] @ alice # []" by (simp add: tieDb_def)
  have u2: "\<forall>v\<in>set []. email v \<noteq> emailSetter ''a@x.com''" by simp
  have u3: "email alice = emailSetter ''a@x.com''" by (simp add: emailSetter_ax alice_def)
  have t1: "serviceProviders tieDb = [twin]" by (simp add: tieDb_def)
  have t3: "email twin = emailSetter ''a@x.com''" by (simp add: emailSetter_ax twin_def)
  have t4: "oid twin = oid alice" by (simp add: twin_def alice_def)
  have p1: "\<forall>v\<in>set (users sharedDb). email v \<noteq> emailSetter ''b@x.com''"
    by (simp add: emailSetter_bx sharedDb_def alice_def)
  have p2: "serviceProviders sharedDb = [twin] @ bob # []" by (simp add: sharedDb_def)
  have p3: "\<forall>v\<in>set [twin]. email v \<noteq> emailSetter ''b@x.com''"
    by (simp add: emailSetter_bx twin_def)
  have p4: "email bob = emailSetter ''b@x.com''" by (simp add: emailSetter_bx bob_def)
  have n1: "\<forall>v\<in>set (users demoDb). email v \<noteq> emailSetter ''z@x.com''"
    by (simp add: emailSetter_zx demoDb_def alice_def)
  have n2: "\<forall>v\<in>set (serviceProviders demoDb). email v \<noteq> emailSetter ''z@x.com''"
    by (simp add: emailSetter_zx demoDb_def bob_def)
  have i2: "\<forall>v\<in>set []. oid v \<noteq> (1::nat)" by simp
  have i3: "oid alice = 1" by (simp add: alice_def)
  have j1: "\<forall>v\<in>set (users sharedDb). oid v \<noteq> 2" by (simp add: sharedDb_def alice_def)
  have j3: "\<forall>v\<in>set [twin]. oid v \<noteq> 2" by (simp add: twin_def)
  have j4: "oid bob = 2" by (simp add: bob_def)
  have m1: "\<forall>v\<in>set (users demoDb). oid v \<noteq> 3" by (simp add: demoDb_def alice_def)
  have m2: "\<forall>v\<in>set (serviceProviders demoDb). oid v \<noteq> 3" by (simp add: demoDb_def bob_def)
  have k1: "''jwt.i'' \<noteq> []" by simp
  have k2: "jwt_verify demoExt ''jwt.i'' (now demoEnv) = Inr 1" by (simp add: demoExt_def)
  have k3: "''jwt.ii'' \<noteq> []" by simp
  have k4: "jwt_verify demoExt ''jwt.ii'' (now demoEnv) = Inr 2" by (simp add: demoExt_def)
  have k5: "''jwt.iii'' \<noteq> []" by simp
  have k6: "jwt_verify demoExt ''jwt.iii'' (now demoEnv) = Inr 3" by (simp add: demoExt_def)
  have c: "comparePassword demoExt alice ''secret1''"
    by (simp add: comparePassword_def demoExt_def alice_def)
  have c': "comparePassword demoExt bob ''secret2''"
    by (simp add: comparePassword_def demoExt_def bob_def)
  note th = resolver_probes_users_first [where X = demoExt and E = demoEnv
      and s = tieDb and ?us1.0 = "[]" and u = alice and ?us2.0 = "[]" and e = "''a@x.com''"
      and pw = "''secret1''"
      and s' = sharedDb and ?ps1.0 = "[twin]" and p = bob and ?ps2.0 = "[]" and e' = "''b@x.com''"
      and pw' = "''secret2''"
      and s'' = demoDb and e'' = "''z@x.com''"
      and token = "''jwt.i''" and i = 1 and ?ui1.0 = "[]" and ui = alice and ?ui2.0 = "[]"
      and token' = "''jwt.ii''" and i' = 2 and ?pi1.0 = "[twin]" and pj = bob and ?pi2.0 = "[]"
      and token'' = "''jwt.iii''" and i'' = 3]
  have a1: "findUserOrProvider tieDb ''a@x.com'' = (Some (Regular alice), ''user'')"
    using th u1 u2 u3 by blast
  have a2: "login demoExt demoEnv tieDb ''a@x.com'' ''secret1''
       = Inr (JObj [(''token'', JStr (generateToken demoExt demoEnv (oid alice))),
                    (''userType'', JStr ''user''), (''user'', User_toJSON alice)])"
  proof -
    from th u1 u2 u3
    have "login demoExt demoEnv tieDb ''a@x.com'' ''secret1''
       = (if comparePassword demoExt alice ''secret1''
          then Inr (JObj [(''token'', JStr (generateToken demoExt demoEnv (oid alice))),
                          (''userType'', JStr ''user''), (''user'', User_toJSON alice)])
          else Inl (Error ''Invalid email or password'' None))"
      by blast
    then show ?thesis by (simp only: c if_True)
  qed
  have b1: "findUserOrProvider sharedDb ''b@x.com'' = (Some (Provider bob), ''serviceProvider'')"
    using th p1 p2 p3 p4 by blast
  have b2: "login demoExt demoEnv sharedDb ''b@x.com'' ''secret2''
       = Inr (JObj [(''token'', JStr (generateToken demoExt demoEnv (oid bob))),
                    (''userType'', JStr ''serviceProvider''),
                    (''serviceProvider'', ServiceProvider_toJSON bob)])"
  proof -
    from th p1 p2 p3 p4
    have "login demoExt demoEnv sharedDb ''b@x.com'' ''secret2''
       = (if comparePassword demoExt bob ''secret2''
          then Inr (JObj [(''token'', JStr (generateToken demoExt demoEnv (oid bob))),
                          (''userType'', JStr ''serviceProvider''),
                          (''serviceProvider'', ServiceProvider_toJSON bob)])
          else Inl (Error ''Invalid email or password'' None))"
      by blast
    then show ?thesis by (simp only: c' if_True)
  qed
  have n: "findUserOrProvider demoDb ''z@x.com'' = (None, ''serviceProvider'')"
    using th n1 n2 by blast
  have x1: "auth demoExt demoEnv tieDb (Some (''Bearer '' @ ''jwt.i'')) = Inr (Regular alice, ''user'', 1)"
    using th k1 k2 u1 i2 i3 by blast
  have x2: "auth demoExt demoEnv sharedDb (Some (''Bearer '' @ ''jwt.ii''))
       = Inr (Provider bob, ''serviceProvider'', 2)"
    using th k3 k4 j1 p2 j3 j4 by blast
  have x3: "auth demoExt demoEnv demoDb (Some (''Bearer '' @ ''jwt.iii''))
       = Inl (401, ''Invalid token. User not found.'')"
    using th k5 k6 m1 m2 by blast
  show ?thesis
    using u1 u3 t1 t3 t4 c p2 p4 c' k1 k2 i3 k3 k4 j4 k5 k6 a1 a2 b1 b2 n x1 x2 x3 by blast
qed

subsection \<open>Documents written through save\<close>

text \<open>
  A registration stores the hash that \<open>bcrypt.hash\<close> gives for the submitted password,
  and leaves both reset fields unset.
\<close>

lemma preSave_hashes: "password (preSave X E True u) = bcrypt_hash X (password u) (genSalt E)"
  by (simp add: preSave_def)

lemma newUser_fields:
  "password (newUser E d) = data_password d"
  "resetPasswordToken (newUser E d) = None"
  "resetPasswordExpires (newUser E d) = None"
  by (simp_all add: newUser_def)

lemma newServiceProvider_fields:
  "password (newServiceProvider E d) = data_password d"
  "resetPasswordToken (newServiceProvider E d) = None"
  "resetPasswordExpires (newServiceProvider E d) = None"
  by (simp_all add: newServiceProvider_def)

lemma registerUser_stores_hash:
  assumes "validateUser X (newUser E d) = []"
    and "emailSetter (data_email d) \<notin> email ` set (users s)"
    and "newObjectId E \<notin> oid ` set (users s)"
  shows "\<exists>u. users (snd (registerUser X E s d)) = users s @ [u]
           \<and> password u = bcrypt_hash X (data_password d) (genSalt E)
           \<and> resetPasswordToken u = None \<and> resetPasswordExpires u = None"
  by (simp add: registerUser_success [OF assms] preSave_hashes newUser_fields)

lemma registerServiceProvider_stores_hash:
  assumes "validateServiceProvider X (newServiceProvider E d) = []"
    and "emailSetter (data_email d) \<notin> email ` set (serviceProviders s)"
    and "newObjectId E \<notin> oid ` set (serviceProviders s)"
  shows "\<exists>p. serviceProviders (snd (registerServiceProvider X E s d)) = serviceProviders s @ [p]
           \<and> password p = bcrypt_hash X (data_password d) (genSalt E)
           \<and> resetPasswordToken p = None \<and> resetPasswordExpires p = None"
  by (simp add: registerServiceProvider_success [OF assms] preSave_hashes
      newServiceProvider_fields)

end
